theory Spec2Isabelle
  imports Complex_Main "HOL-Library.Char_ord" "HOL-Library.List_Lexorder"
begin

section \<open>Tables\<close>

text \<open>
  A pandas cell is a floating-point number, a missing value (NaN, NaT, None) or a string.
  Numbers are exact reals: rounding, infinities and overflow of IEEE doubles are outside
  the model. Time stamps are numbers too (an integer index, or the nanoseconds of a
  datetime).
\<close>

datatype cell = Num real | NaN | Str string

type_synonym row = "(string \<times> cell) list"

text \<open>
  A DataFrame with its index: the column labels in order, and the rows in order, each
  with its index label. Column labels are distinct, a row is read by label.
\<close>

record table =
  columns :: "string list"
  rows :: "(int \<times> row) list"

definition cell_at :: "row \<Rightarrow> string \<Rightarrow> cell" where
  "cell_at r c = (case map_of r c of Some v \<Rightarrow> v | None \<Rightarrow> NaN)"

definition index :: "table \<Rightarrow> int list" where
  "index t = map fst (rows t)"

text \<open>\<^verbatim>\<open>data[name]\<close>: the cells of one column, top to bottom.\<close>

definition column :: "table \<Rightarrow> string \<Rightarrow> cell list" where
  "column t c = map (\<lambda>(i, r). cell_at r c) (rows t)"

text \<open>\<^verbatim>\<open>data[names]\<close>: the listed columns, in the listed order, every row kept.\<close>

definition select_columns :: "table \<Rightarrow> string list \<Rightarrow> table" where
  "select_columns t cs =
     \<lparr>columns = cs, rows = map (\<lambda>(i, r). (i, map (\<lambda>c. (c, cell_at r c)) cs)) (rows t)\<rparr>"

text \<open>\<^verbatim>\<open>data.loc[mask]\<close> with a mask computed from the index.\<close>

definition loc_index :: "(int \<Rightarrow> bool) \<Rightarrow> table \<Rightarrow> table" where
  "loc_index p t = t\<lparr>rows := filter (\<lambda>(i, r). p i) (rows t)\<rparr>"

definition is_missing :: "cell \<Rightarrow> bool" where
  "is_missing c = (c = NaN)"

text \<open>\<^verbatim>\<open>dropna()\<close>: the rows with no missing cell in any column.\<close>

definition dropna :: "table \<Rightarrow> table" where
  "dropna t =
     t\<lparr>rows := filter (\<lambda>(i, r). \<not> list_ex (\<lambda>c. is_missing (cell_at r c)) (columns t)) (rows t)\<rparr>"

text \<open>\<^verbatim>\<open>data[name] = value\<close>: overwrite the column in place, or append it.\<close>

definition set_cell :: "string \<Rightarrow> cell \<Rightarrow> row \<Rightarrow> row" where
  "set_cell c v r =
     (if c \<in> set (map fst r) then map (\<lambda>(k, x). if k = c then (k, v) else (k, x)) r
      else r @ [(c, v)])"

definition set_column_list :: "string \<Rightarrow> string list \<Rightarrow> string list" where
  "set_column_list c cs = (if c \<in> set cs then cs else cs @ [c])"

section \<open>Errors\<close>

text \<open>
  The exceptions of the two modules, by class, with their message. The message of the
  component check interpolates a Python set, whose printed order is not fixed: it is kept
  as the set and the rejected name (\<open>ComponentError\<close>, of class ValueError).
\<close>

datatype error =
    KeyError string
  | ValueError string
  | TypeError string
  | IndexError string
  | ComponentError "string set" string

fun is_ValueError :: "error \<Rightarrow> bool" where
  "is_ValueError (ValueError m) = True"
| "is_ValueError (ComponentError s c) = True"
| "is_ValueError e = False"

section \<open>data.py: validation of the input table\<close>

definition is_numeric_dtype :: "cell list \<Rightarrow> bool" where
  "is_numeric_dtype cs = list_all (\<lambda>c. case c of Str s \<Rightarrow> False | _ \<Rightarrow> True) cs"

fun valid_values :: "cell list \<Rightarrow> real list" where
  "valid_values [] = []"
| "valid_values (Num x # cs) = x # valid_values cs"
| "valid_values (c # cs) = valid_values cs"

text \<open>
  \<^verbatim>\<open>Series.std(skipna=True, ddof=0)\<close>: the population standard deviation of the values
  that are not missing, NaN when there is none, a TypeError on a column of strings.
\<close>

definition population_std :: "real list \<Rightarrow> real" where
  "population_std vs =
     (let n = real (length vs);
          avg = sum_list vs / n
      in sqrt (sum_list (map (\<lambda>v. (avg - v)\<^sup>2) vs) / n))"

definition series_std :: "cell list \<Rightarrow> error + cell" where
  "series_std cs =
     (if \<not> is_numeric_dtype cs then Inl (TypeError ''could not convert string to float'')
      else if valid_values cs = [] then Inr NaN
      else Inr (Num (population_std (valid_values cs))))"

text \<open>\<^verbatim>\<open>Series.count()\<close>: the number of cells that are not missing.\<close>

definition count_valid :: "cell list \<Rightarrow> nat" where
  "count_valid cs = length (filter (\<lambda>c. \<not> is_missing c) cs)"

definition validate_data_and_columns ::
  "table \<Rightarrow> string option \<Rightarrow> error + (table \<times> string \<times> string list option)" where
  "validate_data_and_columns data target_column_name =
     (case (case target_column_name of
              None \<Rightarrow> (case columns data of
                          [] \<Rightarrow> Inl (IndexError ''index 0 is out of bounds for axis 0 with size 0'')
                        | c # cs \<Rightarrow> Inr c)
            | Some n \<Rightarrow> Inr n) of
        Inl e \<Rightarrow> Inl e
      | Inr target \<Rightarrow>
          if target \<notin> set (columns data)
          then Inl (KeyError (''Specified `outcome_column` ('' @ target @ '') not found in data''))
          else
            (case series_std (column data target) of
               Inl e \<Rightarrow> Inl e
             | Inr s \<Rightarrow>
                 if s = Num 0 then Inl (ValueError ''Input response cannot be constant.'')
                 else
                   (let feature_columns =
                          (if length (columns data) \<le> 1 then None
                           else Some (filter (\<lambda>col. col \<noteq> target) (columns data)));
                        features = (case feature_columns of None \<Rightarrow> [] | Some f \<Rightarrow> f);
                        data' = select_columns data (target # features)
                    in if count_valid (column data' target) < 3
                       then Inl (ValueError ''Input data must have at least 3 observations.'')
                       else if list_ex (\<lambda>c. list_ex is_missing (column data' c)) features
                       then Inl (ValueError ''Input data cannot have any missing values.'')
                       else if \<not> list_all (\<lambda>c. is_numeric_dtype (column data' c)) (columns data')
                       then Inl (ValueError ''Input data must contain only numeric values.'')
                       else Inr (data', target, feature_columns))))"

section \<open>data.py: the dataset\<close>

text \<open>
  The attributes of \<^verbatim>\<open>CausalImpactData\<close>. The masked time series is the pair of the
  normalized pre-period target values and their missingness flags. \<open>'s\<close> is the type of
  a fitted \<^verbatim>\<open>standardize.Scaler\<close>.
\<close>

record 's causal_impact_data =
  pre_intervention_period :: "int \<times> int"
  post_intervention_period :: "int \<times> int"
  data :: table
  target_col :: string
  feature_columns :: "string list option"
  standardize_data :: bool
  pre_intervention_data :: table
  after_pre_intervention_data :: table
  num_steps_forecast :: nat
  outcome_scaler :: "'s option"
  normalized_pre_intervention_data :: table
  normalized_after_pre_intervention_data :: table
  pre_intervention_target_ts :: "cell list \<times> bool list"
  normalized_whole_period_features :: "table option"

text \<open>
  \<^verbatim>\<open>pd.concat([a, b], axis=0)\<close> of two selections of the same columns, and the constant
  column \<^verbatim>\<open>intercept_\<close> set on the result.
\<close>

definition whole_period_features :: "table \<Rightarrow> table \<Rightarrow> string list \<Rightarrow> table" where
  "whole_period_features pre after fs =
     (let a = select_columns pre fs; b = select_columns after fs
      in \<lparr>columns = set_column_list ''intercept_'' fs,
          rows = map (\<lambda>(i, r). (i, set_cell ''intercept_'' (Num 1) r)) (rows a @ rows b)\<rparr>)"

text \<open>
  The constructor. The modules \<^verbatim>\<open>indices\<close> and \<^verbatim>\<open>standardize\<close> are imported by data.py
  and are not part of the sources at hand, so the three functions the constructor calls
  are parameters: \<open>parse_and_validate_date_data\<close> (it returns the two periods in the type
  of the index, or raises), \<open>fit\<close> and \<open>transform\<close> of the scaler. The order of the steps
  is the order of the statements of \<^verbatim>\<open>__init__\<close>; an exception of a step ends the
  construction with no object.
\<close>

definition CausalImpactData_init ::
  "(table \<Rightarrow> 'p \<Rightarrow> 'p \<Rightarrow> error + ((int \<times> int) \<times> (int \<times> int))) \<Rightarrow>
   (table \<Rightarrow> error + 's) \<Rightarrow> ('s \<Rightarrow> table \<Rightarrow> error + table) \<Rightarrow>
   table \<Rightarrow> 'p \<Rightarrow> 'p \<Rightarrow> bool \<Rightarrow> string option \<Rightarrow> bool \<Rightarrow> error + 's causal_impact_data" where
  "CausalImpactData_init parse_and_validate_date_data fit transform
       dat pre_period post_period drop_post_period_nan target_col_name standardize =
     (case parse_and_validate_date_data dat pre_period post_period of
        Inl e \<Rightarrow> Inl e
      | Inr (pre, post) \<Rightarrow>
     (case validate_data_and_columns dat target_col_name of
        Inl e \<Rightarrow> Inl e
      | Inr (d, target, features) \<Rightarrow>
     (let pre_data = loc_index (\<lambda>i. i \<ge> fst pre \<and> i \<le> snd pre) d;
          after_pre_data = loc_index (\<lambda>i. i > snd pre) d
      in
     (case (if standardize
            then (case fit pre_data of
                    Inl e \<Rightarrow> Inl e
                  | Inr scaler \<Rightarrow>
                 (case fit (select_columns pre_data [target]) of
                    Inl e \<Rightarrow> Inl e
                  | Inr outcome \<Rightarrow>
                 (case transform scaler pre_data of
                    Inl e \<Rightarrow> Inl e
                  | Inr npre \<Rightarrow>
                 (case transform scaler after_pre_data of
                    Inl e \<Rightarrow> Inl e
                  | Inr nafter \<Rightarrow> Inr (Some outcome, npre, nafter)))))
            else Inr (None, pre_data, after_pre_data)) of
        Inl e \<Rightarrow> Inl e
      | Inr (outcome, npre, nafter0) \<Rightarrow>
     (let nafter = (if drop_post_period_nan then dropna nafter0 else nafter0);
          target_values = column npre target
      in Inr \<lparr>pre_intervention_period = pre,
              post_intervention_period = post,
              data = d,
              target_col = target,
              feature_columns = features,
              standardize_data = standardize,
              pre_intervention_data = pre_data,
              after_pre_intervention_data = after_pre_data,
              num_steps_forecast = length (index after_pre_data),
              outcome_scaler = outcome,
              normalized_pre_intervention_data = npre,
              normalized_after_pre_intervention_data = nafter,
              pre_intervention_target_ts = (target_values, map is_missing target_values),
              normalized_whole_period_features =
                (case features of
                   None \<Rightarrow> None
                 | Some fs \<Rightarrow> Some (whole_period_features npre nafter fs))\<rparr>)))))"

section \<open>plot.py: strings\<close>

text \<open>\<^verbatim>\<open>s.startswith(p)\<close>, and \<^verbatim>\<open>sub in s\<close> on strings.\<close>

fun starts_with :: "string \<Rightarrow> string \<Rightarrow> bool" where
  "starts_with s [] = True"
| "starts_with [] (p # ps) = False"
| "starts_with (c # cs) (p # ps) = (c = p \<and> starts_with cs ps)"

fun str_in :: "string \<Rightarrow> string \<Rightarrow> bool" where
  "str_in sub [] = (sub = [])"
| "str_in sub (c # cs) = (starts_with (c # cs) sub \<or> str_in sub cs)"

text \<open>
  \<^verbatim>\<open>re.sub("a1|a2|...", "", s)\<close> for literal alternatives: scanning from the left, at each
  position the first alternative that matches there is deleted and the scan goes on after
  it; where none matches the character is kept. The counter is the number of characters
  of the current match still to delete.
\<close>

fun re_sub_skip :: "string list \<Rightarrow> nat \<Rightarrow> string \<Rightarrow> string" where
  "re_sub_skip alts k [] = []"
| "re_sub_skip alts (Suc k) (c # cs) = re_sub_skip alts k cs"
| "re_sub_skip alts 0 (c # cs) =
     (case find (starts_with (c # cs)) alts of
        None \<Rightarrow> c # re_sub_skip alts 0 cs
      | Some [] \<Rightarrow> c # re_sub_skip alts 0 cs
      | Some (a # as) \<Rightarrow> re_sub_skip alts (length as) cs)"

definition re_sub_delete :: "string list \<Rightarrow> string \<Rightarrow> string" where
  "re_sub_delete alts s = re_sub_skip alts 0 s"

text \<open>\<^verbatim>\<open>re.search("a1|a2|...", s)\<close> for literal alternatives.\<close>

definition re_search :: "string list \<Rightarrow> string \<Rightarrow> bool" where
  "re_search alts s = list_ex (\<lambda>a. str_in a s) alts"

text \<open>\<^verbatim>\<open>str.capitalize()\<close> on ASCII: the first letter in upper case, the rest in lower case.\<close>

definition lower_letters :: string where
  "lower_letters = ''abcdefghijklmnopqrstuvwxyz''"

definition upper_letters :: string where
  "upper_letters = ''ABCDEFGHIJKLMNOPQRSTUVWXYZ''"

definition to_upper :: "char \<Rightarrow> char" where
  "to_upper c = (case map_of (zip lower_letters upper_letters) c of Some u \<Rightarrow> u | None \<Rightarrow> c)"

definition to_lower :: "char \<Rightarrow> char" where
  "to_lower c = (case map_of (zip upper_letters lower_letters) c of Some l \<Rightarrow> l | None \<Rightarrow> c)"

fun capitalize :: "string \<Rightarrow> string" where
  "capitalize [] = []"
| "capitalize (c # cs) = to_upper c # map to_lower cs"

section \<open>plot.py: long-form frames\<close>

text \<open>
  The frames of the plot pipeline after the melt. Their integer row labels are never read
  by plot.py (rows are selected by boolean masks only), so a frame is its column labels
  and its rows, in order.
\<close>

record frame =
  fcolumns :: "string list"
  frows :: "row list"

text \<open>\<^verbatim>\<open>df[name] = f(row)\<close>, \<^verbatim>\<open>df.drop(columns=names)\<close> and \<^verbatim>\<open>df.loc[df[name] != v]\<close>.\<close>

definition assign :: "string \<Rightarrow> (row \<Rightarrow> cell) \<Rightarrow> frame \<Rightarrow> frame" where
  "assign c f fr =
     \<lparr>fcolumns = set_column_list c (fcolumns fr), frows = map (\<lambda>r. set_cell c (f r) r) (frows fr)\<rparr>"

definition drop_columns :: "string list \<Rightarrow> frame \<Rightarrow> frame" where
  "drop_columns cs fr =
     \<lparr>fcolumns = filter (\<lambda>c. c \<notin> set cs) (fcolumns fr),
      frows = map (filter (\<lambda>(k, v). k \<notin> set cs)) (frows fr)\<rparr>"

definition loc_ne :: "string \<Rightarrow> cell \<Rightarrow> frame \<Rightarrow> error + frame" where
  "loc_ne c v fr =
     (if c \<notin> set (fcolumns fr) then Inl (KeyError c)
      else Inr (fr\<lparr>frows := filter (\<lambda>r. cell_at r c \<noteq> v) (frows fr)\<rparr>))"

text \<open>
  Element-wise string methods and arithmetic of a column: a missing value stays missing.
\<close>

definition str_map :: "(string \<Rightarrow> string) \<Rightarrow> cell \<Rightarrow> cell" where
  "str_map f c = (case c of Str s \<Rightarrow> Str (f s) | _ \<Rightarrow> NaN)"

definition str_test :: "(string \<Rightarrow> bool) \<Rightarrow> cell \<Rightarrow> bool" where
  "str_test p c = (case c of Str s \<Rightarrow> p s | _ \<Rightarrow> False)"

definition cell_arith :: "(real \<Rightarrow> real \<Rightarrow> real) \<Rightarrow> cell \<Rightarrow> cell \<Rightarrow> cell" where
  "cell_arith f a b = (case (a, b) of (Num x, Num y) \<Rightarrow> Num (f x y) | _ \<Rightarrow> NaN)"

text \<open>\<^verbatim>\<open>pd.Categorical(values, categories=cats)\<close>: a value outside the categories is missing.\<close>

definition categorical :: "string list \<Rightarrow> cell \<Rightarrow> cell" where
  "categorical cats c = (case c of Str s \<Rightarrow> (if s \<in> set cats then Str s else NaN) | _ \<Rightarrow> NaN)"

subsection \<open>melt\<close>

text \<open>
  \<^verbatim>\<open>df.melt(id_vars=ids, var_name=var, value_name=val)\<close>: a KeyError when an identifier
  column is absent; else, for each other column in order, one row per row of the table,
  with the identifier cells, the label of the column and its cell.
\<close>

definition melt :: "table \<Rightarrow> string list \<Rightarrow> string \<Rightarrow> string \<Rightarrow> error + frame" where
  "melt t ids var val =
     (if \<not> list_all (\<lambda>k. k \<in> set (columns t)) ids
      then Inl (KeyError ''The following id_vars are not present in the DataFrame'')
      else Inr \<lparr>fcolumns = ids @ [var, val],
                frows = concat (map (\<lambda>c. map (\<lambda>(i, r). map (\<lambda>k. (k, cell_at r k)) ids
                                                      @ [(var, Str c), (val, cell_at r c)])
                                            (rows t))
                                   (filter (\<lambda>c. c \<notin> set ids) (columns t)))\<rparr>)"

subsection \<open>pivot\_table\<close>

definition key_of :: "string list \<Rightarrow> row \<Rightarrow> cell list" where
  "key_of ks r = map (cell_at r) ks"

text \<open>The order of group keys: numbers by value, strings by the lexicographic order.\<close>

fun cell_le :: "cell \<Rightarrow> cell \<Rightarrow> bool" where
  "cell_le (Num a) (Num b) = (a \<le> b)"
| "cell_le (Str a) (Str b) = (a \<le> b)"
| "cell_le (Num a) c = True"
| "cell_le (Str a) (Num b) = False"
| "cell_le (Str a) NaN = True"
| "cell_le NaN NaN = True"
| "cell_le NaN c = False"

fun key_le :: "cell list \<Rightarrow> cell list \<Rightarrow> bool" where
  "key_le [] ys = True"
| "key_le (x # xs) [] = False"
| "key_le (x # xs) (y # ys) = (if x = y then key_le xs ys else cell_le x y)"

fun insert_key :: "cell list \<Rightarrow> cell list list \<Rightarrow> cell list list" where
  "insert_key k [] = [k]"
| "insert_key k (x # xs) = (if key_le k x then k # x # xs else x # insert_key k xs)"

definition sort_keys :: "cell list list \<Rightarrow> cell list list" where
  "sort_keys ks = foldr insert_key ks []"

text \<open>The mean of the values that are not missing, missing when there is none.\<close>

definition nanmean :: "cell list \<Rightarrow> cell" where
  "nanmean cs =
     (if valid_values cs = [] then NaN
      else Num (sum_list (valid_values cs) / real (length (valid_values cs))))"

definition label :: "cell \<Rightarrow> string" where
  "label c = (case c of Str s \<Rightarrow> s | _ \<Rightarrow> [])"

definition is_str :: "cell \<Rightarrow> bool" where
  "is_str c = (case c of Str s \<Rightarrow> True | _ \<Rightarrow> False)"

text \<open>
  \<^verbatim>\<open>df.pivot_table(index=idx, columns=col, values=val).reset_index()\<close> with the defaults
  (\<^verbatim>\<open>aggfunc="mean"\<close>, \<^verbatim>\<open>dropna=True\<close>, \<^verbatim>\<open>sort=True\<close>). Rows with a missing key are left out
  of the grouping; each group (key, label) is aggregated to the mean of its values; groups
  whose mean is missing are dropped; the labels become columns and the keys rows, both
  sorted; a cell with no group is missing. The mean of strings is a TypeError, and
  \<^verbatim>\<open>reset_index\<close> cannot insert a key column whose name is already a label.
\<close>

definition pivot_table :: "frame \<Rightarrow> string list \<Rightarrow> string \<Rightarrow> string \<Rightarrow> error + frame" where
  "pivot_table fr idx col val =
     (if \<not> list_all (\<lambda>k. k \<in> set (fcolumns fr)) (val # idx @ [col]) then Inl (KeyError val)
      else
       (let live = filter (\<lambda>r. \<not> list_ex (\<lambda>k. is_missing (cell_at r k)) (idx @ [col])) (frows fr)
        in if list_ex (\<lambda>r. is_str (cell_at r val)) live
           then Inl (TypeError ''agg function failed [how->mean,dtype->object]'')
           else
            (let mean_of = (\<lambda>k s. nanmean (map (\<lambda>r. cell_at r val)
                                (filter (\<lambda>r. key_of idx r = k \<and> cell_at r col = s) live)));
                 kept = filter (\<lambda>r. \<not> is_missing (mean_of (key_of idx r) (cell_at r col))) live;
                 keys = sort_keys (remdups (map (key_of idx) kept));
                 labels = sort (remdups (map (\<lambda>r. label (cell_at r col)) kept))
             in if list_ex (\<lambda>s. s \<in> set idx) labels
                then Inl (ValueError ''cannot insert column, already exists'')
                else Inr \<lparr>fcolumns = idx @ labels,
                          frows = map (\<lambda>k. zip idx k @ map (\<lambda>s. (s, mean_of k (Str s))) labels)
                                      keys\<rparr>)))"

subsection \<open>concat and merge\<close>

text \<open>
  \<^verbatim>\<open>pd.concat([a, b], axis=0, sort=True)\<close>: the rows of both; the columns are the union,
  sorted when the two frames do not have the same columns; a cell of an absent column is
  missing.
\<close>

definition concat_frames :: "frame \<Rightarrow> frame \<Rightarrow> frame" where
  "concat_frames a b =
     (let cs = (if fcolumns a = fcolumns b then fcolumns a
                else sort (remdups (fcolumns a @ fcolumns b)))
      in \<lparr>fcolumns = cs, frows = map (\<lambda>r. map (\<lambda>c. (c, cell_at r c)) cs) (frows a @ frows b)\<rparr>)"

text \<open>
  \<^verbatim>\<open>left.merge(right, on=keys, how="left")\<close>: a KeyError when a key column is absent from
  a frame; else, for each row of the left frame in order, one row per row of the right
  frame with the same key (missing keys match each other), or one row with the right
  columns missing when there is none. A column outside the keys that both frames have is
  renamed with the suffix \<^verbatim>\<open>_x\<close> (left) and \<^verbatim>\<open>_y\<close> (right).
\<close>

definition merge_left :: "frame \<Rightarrow> frame \<Rightarrow> string list \<Rightarrow> error + frame" where
  "merge_left l r on =
     (if \<not> list_all (\<lambda>k. k \<in> set (fcolumns l) \<and> k \<in> set (fcolumns r)) on
      then Inl (KeyError ''merge key'')
      else
       (let rrest = filter (\<lambda>c. c \<notin> set on) (fcolumns r);
            lname = (\<lambda>c. if c \<notin> set on \<and> c \<in> set rrest then c @ ''_x'' else c);
            rname = (\<lambda>c. if c \<in> set (fcolumns l) then c @ ''_y'' else c)
        in Inr \<lparr>fcolumns = map lname (fcolumns l) @ map rname rrest,
                 frows = concat (map (\<lambda>a.
                    map (\<lambda>b. map (\<lambda>c. (lname c, cell_at a c)) (fcolumns l)
                            @ map (\<lambda>c. (rname c, cell_at b c)) rrest)
                        (case filter (\<lambda>b. key_of on b = key_of on a) (frows r) of
                           [] \<Rightarrow> [[]]
                         | m # ms \<Rightarrow> m # ms))
                    (frows l))\<rparr>))"

section \<open>plot.py: the component extractor\<close>

text \<open>
  Python values of the keyword arguments of \<^verbatim>\<open>plot\<close>.
\<close>

datatype pyval =
    PNone
  | PBool bool
  | PInt int
  | PFloat real
  | PStr string
  | PList "pyval list"
  | PDict "(string \<times> pyval) list"

fun truthy :: "pyval \<Rightarrow> bool" where
  "truthy PNone = False"
| "truthy (PBool b) = b"
| "truthy (PInt i) = (i \<noteq> 0)"
| "truthy (PFloat x) = (x \<noteq> 0)"
| "truthy (PStr s) = (s \<noteq> [])"
| "truthy (PList xs) = (xs \<noteq> [])"
| "truthy (PDict kvs) = (kvs \<noteq> [])"

fun as_number :: "pyval \<Rightarrow> real option" where
  "as_number (PBool b) = Some (if b then 1 else 0)"
| "as_number (PInt i) = Some (of_int i)"
| "as_number (PFloat x) = Some x"
| "as_number v = None"

definition base_columns :: "string list" where
  "base_columns = [''time'', ''pre_period_start'', ''pre_period_end'',
                   ''post_period_start'', ''post_period_end'']"

definition valid_components :: "string set" where
  "valid_components = {''lines'', ''bands'', ''std''}"

definition required_columns :: "string \<Rightarrow> string list" where
  "required_columns component =
     (if component = ''lines'' then base_columns @ [''mean'', ''median'', ''observed'']
      else if component = ''bands'' then base_columns @ [''lower'', ''upper'']
      else base_columns @ [''mean'', ''std''])"

definition statistical_suffixes :: "string list" where
  "statistical_suffixes = [''_upper'', ''_lower'', ''_mean'', ''_median'', ''_std'']"

definition original_scale_keywords :: "string list" where
  "original_scale_keywords = [''observed'', ''posterior'']"

definition scale_prefixes :: "string list" where
  "scale_prefixes = [''posterior_'', ''point_effects_'', ''cumulative_effects_'']"

definition pivot_columns :: "string list" where
  "pivot_columns = [''time'', ''scale'', ''pre_period_start'', ''pre_period_end'',
                    ''post_period_start'', ''post_period_end'']"

text \<open>
  The statements of \<^verbatim>\<open>_create_plot_component_df\<close> from the selection of the columns to
  the melt (\<open>melted\<close>), then the derivation of \<^verbatim>\<open>scale\<close> and \<^verbatim>\<open>stat\<close> from the label of
  the melted column (\<open>classify\<close>).
\<close>

definition extracted_columns :: "table \<Rightarrow> string \<Rightarrow> string list" where
  "extracted_columns series component =
     filter (\<lambda>col. list_ex (\<lambda>stub. str_in stub col) (required_columns component))
            (columns series)"

definition melted :: "table \<Rightarrow> string \<Rightarrow> error + frame" where
  "melted series component =
     (let filtered_df = select_columns series (extracted_columns series component)
      in melt filtered_df base_columns ''scale_stat'' ''value'')"

definition classify :: "frame \<Rightarrow> frame" where
  "classify melted_df =
     (let a = assign ''scale''
                (\<lambda>r. str_map (re_sub_delete statistical_suffixes) (cell_at r ''scale_stat''))
                melted_df;
          b = assign ''scale''
                (\<lambda>r. if str_test (re_search original_scale_keywords) (cell_at r ''scale'')
                     then Str ''original'' else cell_at r ''scale'')
                a
      in assign ''stat''
           (\<lambda>r. str_map (re_sub_delete scale_prefixes) (cell_at r ''scale_stat'')) b)"

text \<open>
  The pivot of the band components, with the column \<^verbatim>\<open>band_method\<close> stamped on it.
\<close>

definition pivoted :: "table \<Rightarrow> string \<Rightarrow> error + frame" where
  "pivoted series component =
     (case melted series component of
        Inl e \<Rightarrow> Inl e
      | Inr m \<Rightarrow>
        (case pivot_table (drop_columns [''scale_stat''] (classify m)) pivot_columns
                ''stat'' ''value'' of
           Inl e \<Rightarrow> Inl e
         | Inr p \<Rightarrow>
             Inr (assign ''band_method''
                    (\<lambda>r. Str (if component = ''bands'' then ''quantiles'' else ''std'')) p)))"

text \<open>
  The whole function. \<open>normal_quantile\<close> is the quantile function of the standard normal
  distribution of the library (\<^verbatim>\<open>tfp.distributions.Normal(0, 1).quantile\<close>), a parameter.
\<close>

definition create_plot_component_df ::
  "(real \<Rightarrow> real) \<Rightarrow> table \<Rightarrow> string \<Rightarrow> pyval \<Rightarrow> error + frame" where
  "create_plot_component_df normal_quantile series component alpha =
     (if component \<notin> valid_components then Inl (ComponentError valid_components component)
      else if component = ''bands'' \<or> component = ''std'' then
        (case pivoted series component of
           Inl e \<Rightarrow> Inl e
         | Inr pivoted_df \<Rightarrow>
             if component = ''std'' then
               (case as_number alpha of
                  None \<Rightarrow> Inl (TypeError ''unsupported operand type(s) for /'')
                | Some a \<Rightarrow>
                   (let z_score = normal_quantile (1 - a / 2) in
                    if ''mean'' \<notin> set (fcolumns pivoted_df) then Inl (KeyError ''mean'')
                    else if ''std'' \<notin> set (fcolumns pivoted_df) then Inl (KeyError ''std'')
                    else
                     (let lo = assign ''lower''
                                 (\<lambda>r. cell_arith (-) (cell_at r ''mean'')
                                        (cell_arith (*) (Num z_score) (cell_at r ''std'')))
                                 pivoted_df;
                          up = assign ''upper''
                                 (\<lambda>r. cell_arith (+) (cell_at r ''mean'')
                                        (cell_arith (*) (Num z_score) (cell_at r ''std'')))
                                 lo
                      in Inr (drop_columns [''mean'', ''std''] up))))
             else Inr pivoted_df)
      else
        (case melted series component of
           Inl e \<Rightarrow> Inl e
         | Inr m \<Rightarrow> Inr (drop_columns [''scale_stat''] (classify m))))"

section \<open>plot.py: the plot frame\<close>

text \<open>\<^verbatim>\<open>series["time"] = series.index\<close>, the one mutation of the evaluation table.\<close>

definition with_time :: "table \<Rightarrow> table" where
  "with_time series =
     \<lparr>columns = set_column_list ''time'' (columns series),
      rows = map (\<lambda>(i, r). (i, set_cell ''time'' (Num (of_int i)) r)) (rows series)\<rparr>"

definition merge_keys :: "string list" where
  "merge_keys = [''time'', ''scale'', ''pre_period_start'', ''pre_period_end'',
                 ''post_period_start'', ''post_period_end'']"

definition scale_pretty :: "cell \<Rightarrow> cell" where
  "scale_pretty m =
     (if m = Str ''original'' then Str ''Original''
      else if m = Str ''point_effects'' then Str ''Pointwise'' else Str ''Cumulative'')"

definition decorate :: "frame \<Rightarrow> error + frame" where
  "decorate plot_df =
     (let z = assign ''zero'' (\<lambda>r. if cell_at r ''scale'' = Str ''original'' then NaN else Num 0)
                plot_df;
          s = assign ''scale_pretty''
                (\<lambda>r. categorical [''Original'', ''Pointwise'', ''Cumulative'']
                        (scale_pretty (cell_at r ''scale'')))
                z
      in if ''stat'' \<notin> set (fcolumns s) then Inl (KeyError ''stat'')
         else Inr (assign ''stat_pretty''
                     (\<lambda>r. categorical [''Observed'', ''Mean'', ''Median'']
                             (str_map capitalize (cell_at r ''stat'')))
                     s))"

definition create_plot_df :: "(real \<Rightarrow> real) \<Rightarrow> table \<Rightarrow> pyval \<Rightarrow> error + frame" where
  "create_plot_df normal_quantile series0 alpha =
     (let series = with_time series0 in
      case create_plot_component_df normal_quantile series ''lines'' (PFloat 0.05) of
        Inl e \<Rightarrow> Inl e
      | Inr lines_df \<Rightarrow>
     (case create_plot_component_df normal_quantile series ''bands'' (PFloat 0.05) of
        Inl e \<Rightarrow> Inl e
      | Inr bands_df0 \<Rightarrow>
     (case (if list_ex (\<lambda>col. str_in ''std'' col) (columns series)
            then (case create_plot_component_df normal_quantile series ''std'' alpha of
                    Inl e \<Rightarrow> Inl e
                  | Inr std_df \<Rightarrow> Inr (concat_frames bands_df0 std_df))
            else Inr bands_df0) of
        Inl e \<Rightarrow> Inl e
      | Inr bands_df \<Rightarrow>
     (case merge_left lines_df bands_df merge_keys of
        Inl e \<Rightarrow> Inl e
      | Inr plot_df \<Rightarrow> decorate plot_df))))"

section \<open>plot.py: plot\<close>

definition plot_defaults :: "(string \<times> pyval) list" where
  "plot_defaults =
     [(''static_plot'', PBool True),
      (''backend'', PStr ''matplotlib''),
      (''alpha'', PFloat 0.05),
      (''show_median'', PBool False),
      (''use_std_intervals'', PBool False),
      (''chart_width'', PInt 600),
      (''chart_height'', PInt 200),
      (''axis_label_font_size'', PInt 16),
      (''strip_title_font_size'', PInt 20),
      (''x_label'', PStr ''Date''),
      (''y_labels'', PList [PStr ''Observed'', PStr ''Pointwise Effect'', PStr ''Cumulative Effect'']),
      (''title'', PStr ''Interrupted Time Series Analysis Over Time''),
      (''title_font_size'', PInt 16),
      (''axis_title_font_size'', PInt 12),
      (''y_formatter'', PStr ''millions''),
      (''axes2_legend_label'', PStr ''Cumulative''),
      (''axes1_legend_label'', PStr ''Pointwise''),
      (''axes0_legend_label_mean'', PStr ''Mean''),
      (''axes0_legend_label_observed'', PStr ''Observed''),
      (''y_formatter_unit'', PStr ''dollar''),
      (''legend_labels'',
         PDict [(''mean'', PStr ''Mean''),
                (''observed'', PStr ''Observed''),
                (''pointwise'', PStr ''Pointwise''),
                (''cumulative'', PStr ''Cumulative''),
                (''pre-period-start'', PStr ''Pre-Period Start''),
                (''pre-period-end'', PStr ''Pre-Period End''),
                (''post-period-start'', PStr ''Post-Period Start''),
                (''post-period-end'', PStr ''Post-Period End'')])]"

text \<open>
  The merge of the keyword arguments into the defaults: with no keyword argument the
  defaults stand; else each default option takes the value given for its name, if any.
\<close>

definition plot_params :: "(string \<times> pyval) list \<Rightarrow> (string \<times> pyval) list" where
  "plot_params kwargs =
     (if kwargs \<noteq> []
      then map (\<lambda>(k, v). (k, case map_of kwargs k of Some x \<Rightarrow> x | None \<Rightarrow> v)) plot_defaults
      else plot_defaults)"

definition param :: "(string \<times> pyval) list \<Rightarrow> string \<Rightarrow> pyval" where
  "param ps k = (case map_of ps k of Some v \<Rightarrow> v | None \<Rightarrow> PNone)"

text \<open>
  The renderers are outside plot.py's data pipeline: a call of one is recorded with the
  frame and the options it receives.
\<close>

datatype rendering =
    Classic frame "(string \<times> pyval) list"
  | Interactive frame "(string \<times> pyval) list"
  | Matplotlib frame "(string \<times> pyval) list"

fun rendered_frame :: "rendering \<Rightarrow> frame" where
  "rendered_frame (Classic f ps) = f"
| "rendered_frame (Interactive f ps) = f"
| "rendered_frame (Matplotlib f ps) = f"

fun rendered_params :: "rendering \<Rightarrow> (string \<times> pyval) list" where
  "rendered_params (Classic f ps) = ps"
| "rendered_params (Interactive f ps) = ps"
| "rendered_params (Matplotlib f ps) = ps"

text \<open>
  The statements of \<^verbatim>\<open>plot\<close> after the plot frame is built: the filter on the band
  method, the block under \<^verbatim>\<open>show_median\<close>, and the choice of the renderer.
\<close>

definition draw :: "(string \<times> pyval) list \<Rightarrow> frame \<Rightarrow> error + rendering" where
  "draw ps main_plot_df =
     (case (if truthy (param ps ''use_std_intervals'')
            then loc_ne ''band_method'' (Str ''quantile'') main_plot_df
            else loc_ne ''band_method'' (Str ''std'') main_plot_df) of
        Inl e \<Rightarrow> Inl e
      | Inr plot_df0 \<Rightarrow>
     (case (if truthy (param ps ''show_median'')
            then (case loc_ne ''stat'' (Str ''median'') plot_df0 of
                    Inl e \<Rightarrow> Inl e
                  | Inr d \<Rightarrow>
                      if ''stat_pretty'' \<notin> set (fcolumns d) then Inl (KeyError ''stat_pretty'')
                      else Inr (assign ''stat_pretty''
                                  (\<lambda>r. categorical [''Observed'', ''Mean'']
                                          (cell_at r ''stat_pretty''))
                                  d))
            else Inr plot_df0) of
        Inl e \<Rightarrow> Inl e
      | Inr plot_df \<Rightarrow>
          if param ps ''backend'' = PStr ''altair'' then
            (if truthy (param ps ''static_plot'')
             then (case loc_ne ''stat'' (Str ''median'') plot_df of
                     Inl e \<Rightarrow> Inl e
                   | Inr d \<Rightarrow> Inr (Classic d ps))
             else Inr (Interactive plot_df ps))
          else if param ps ''backend'' = PStr ''matplotlib'' then Inr (Matplotlib plot_df ps)
          else Inl (ValueError ''backend must be one of altair or matplotlib'')))"

text \<open>
  \<^verbatim>\<open>plot\<close>. The first component of the result is the evaluation table of the model object
  after the call (it has gained the column \<^verbatim>\<open>time\<close>), the second the call of the renderer
  or the exception.
\<close>

definition plot ::
  "(real \<Rightarrow> real) \<Rightarrow> table \<Rightarrow> (string \<times> pyval) list \<Rightarrow> table \<times> (error + rendering)" where
  "plot normal_quantile series kwargs =
     (let ps = plot_params kwargs in
      (with_time series,
       case create_plot_df normal_quantile series (param ps ''alpha'') of
         Inl e \<Rightarrow> Inl e
       | Inr main_plot_df \<Rightarrow> draw ps main_plot_df))"

section \<open>Reading the long form\<close>

text \<open>
  The derivation of \<^verbatim>\<open>scale\<close> and \<^verbatim>\<open>stat\<close> read row by row and label by label, and the
  rows of the long form written out: one row per selected value column and row of the
  table. They state what \<open>classify\<close> computes; the properties below relate them to it.
\<close>

definition classified_row :: "row \<Rightarrow> row" where
  "classified_row r =
     (let r1 = set_cell ''scale''
                 (str_map (re_sub_delete statistical_suffixes) (cell_at r ''scale_stat'')) r;
          r2 = set_cell ''scale''
                 (if str_test (re_search original_scale_keywords) (cell_at r1 ''scale'')
                  then Str ''original'' else cell_at r1 ''scale'') r1
      in set_cell ''stat'' (str_map (re_sub_delete scale_prefixes) (cell_at r2 ''scale_stat'')) r2)"

definition scale_of :: "string \<Rightarrow> string" where
  "scale_of c =
     (if re_search original_scale_keywords (re_sub_delete statistical_suffixes c)
      then ''original'' else re_sub_delete statistical_suffixes c)"

definition stat_of :: "string \<Rightarrow> string" where
  "stat_of c = re_sub_delete scale_prefixes c"

definition line_row :: "row \<Rightarrow> string \<Rightarrow> row" where
  "line_row s c =
     map (\<lambda>k. (k, cell_at s k)) base_columns
     @ [(''value'', cell_at s c), (''scale'', Str (scale_of c)), (''stat'', Str (stat_of c))]"

definition value_columns :: "table \<Rightarrow> string \<Rightarrow> string list" where
  "value_columns series component =
     filter (\<lambda>c. c \<notin> set base_columns) (extracted_columns series component)"

definition long_rows :: "table \<Rightarrow> string \<Rightarrow> row list" where
  "long_rows series component =
     concat (map (\<lambda>c. map (\<lambda>(i, s). line_row s c) (rows series))
                 (value_columns series component))"

text \<open>
  The statistic \<open>stat\<close> of the std component at a key (time, scale and the four period
  boundaries): the mean of the values, missing ones apart, of the long-form rows with that
  key and that statistic.
\<close>

definition band_stat :: "table \<Rightarrow> string \<Rightarrow> cell list \<Rightarrow> cell" where
  "band_stat series stat key =
     nanmean (map (\<lambda>x. cell_at x ''value'')
                (filter (\<lambda>x. key_of pivot_columns x = key \<and> cell_at x ''stat'' = Str stat)
                        (long_rows series ''std'')))"

section \<open>Example inputs\<close>

text \<open>
  A validator of periods that accepts the periods as they are given, and a scaler that
  leaves a table as it is: instances of the parameters of the constructor, for the
  concrete runs below.
\<close>

definition accept_periods :: "table \<Rightarrow> int \<times> int \<Rightarrow> int \<times> int \<Rightarrow> error + ((int \<times> int) \<times> (int \<times> int))" where
  "accept_periods d p q = Inr (p, q)"

definition unit_fit :: "table \<Rightarrow> error + unit" where
  "unit_fit t = Inr ()"

definition unit_transform :: "unit \<Rightarrow> table \<Rightarrow> error + table" where
  "unit_transform s t = Inr t"


text \<open>A target with two gaps and one covariate, on the index 0 to 5.\<close>

definition gap_table :: table where
  "gap_table =
     \<lparr>columns = [''y'', ''x''],
      rows = [(0, [(''y'', Num 1), (''x'', Num 1)]), (1, [(''y'', Num 2), (''x'', Num 2)]),
              (2, [(''y'', NaN), (''x'', Num 4)]), (3, [(''y'', Num 5), (''x'', Num 3)]),
              (4, [(''y'', NaN), (''x'', Num 3)]), (5, [(''y'', Num 7), (''x'', Num 3)])]\<rparr>"

text \<open>A target alone, unknown at the last time step.\<close>

definition open_end_table :: table where
  "open_end_table =
     \<lparr>columns = [''y''],
      rows = [(0, [(''y'', Num 1)]), (1, [(''y'', Num 2)]), (2, [(''y'', Num 3)]),
              (3, [(''y'', NaN)])]\<rparr>"

subsection \<open>An evaluation table\<close>

text \<open>
  A stand-in for the quantile function of the library, and an evaluation table with one
  time step: the observed value, the posterior mean, median, quantile bounds and standard
  deviation, the mean of the cumulative effect, and the period boundaries.
\<close>

definition example_quantile :: "real \<Rightarrow> real" where
  "example_quantile p = 2"

definition example_series :: table where
  "example_series =
     \<lparr>columns = [''observed'', ''posterior_mean'', ''posterior_median'', ''posterior_lower'',
                 ''posterior_upper'', ''posterior_std'', ''cumulative_effects_mean'',
                 ''pre_period_start'', ''pre_period_end'',
                 ''post_period_start'', ''post_period_end''],
      rows = [(0, [(''observed'', Num 10), (''posterior_mean'', Num 9), (''posterior_median'', Num 8),
                   (''posterior_lower'', Num 7), (''posterior_upper'', Num 12),
                   (''posterior_std'', Num 1), (''cumulative_effects_mean'', Num 1),
                   (''pre_period_start'', Num 0), (''pre_period_end'', Num 0),
                   (''post_period_start'', Num 1), (''post_period_end'', Num 1)])]\<rparr>"

text \<open>The lines component, the std component and the plot frame of the example.\<close>

definition example_lines_df :: frame where
  "example_lines_df =
     \<lparr>fcolumns =
     [''time'', ''pre_period_start'', ''pre_period_end'',
     ''post_period_start'', ''post_period_end'', ''value'', ''scale'',
     ''stat''],
     frows =
     [[(''time'', Num 0), (''pre_period_start'', Num 0),
     (''pre_period_end'', Num 0), (''post_period_start'', Num 1),
     (''post_period_end'', Num 1), (''value'', Num 10),
     (''scale'', Str ''original''), (''stat'', Str ''observed'')],
     [(''time'', Num 0), (''pre_period_start'', Num 0),
     (''pre_period_end'', Num 0), (''post_period_start'', Num 1),
     (''post_period_end'', Num 1), (''value'', Num 9),
     (''scale'', Str ''original''), (''stat'', Str ''mean'')],
     [(''time'', Num 0), (''pre_period_start'', Num 0),
     (''pre_period_end'', Num 0), (''post_period_start'', Num 1),
     (''post_period_end'', Num 1), (''value'', Num 8),
     (''scale'', Str ''original''), (''stat'', Str ''median'')],
     [(''time'', Num 0), (''pre_period_start'', Num 0),
     (''pre_period_end'', Num 0), (''post_period_start'', Num 1),
     (''post_period_end'', Num 1), (''value'', Num 1),
     (''scale'', Str ''cumulative_effects''),
     (''stat'', Str ''mean'')]]\<rparr>"

definition example_std_df :: frame where
  "example_std_df =
     \<lparr>fcolumns =
     [''time'', ''scale'', ''pre_period_start'', ''pre_period_end'',
     ''post_period_start'', ''post_period_end'', ''band_method'',
     ''lower'', ''upper''],
     frows =
     [[(''time'', Num 0), (''scale'', Str ''cumulative_effects''),
     (''pre_period_start'', Num 0), (''pre_period_end'', Num 0),
     (''post_period_start'', Num 1), (''post_period_end'', Num 1),
     (''band_method'', Str ''std''), (''lower'', NaN),
     (''upper'', NaN)],
     [(''time'', Num 0), (''scale'', Str ''original''),
     (''pre_period_start'', Num 0), (''pre_period_end'', Num 0),
     (''post_period_start'', Num 1), (''post_period_end'', Num 1),
     (''band_method'', Str ''std''), (''lower'', Num 7),
     (''upper'', Num 11)]]\<rparr>"

definition example_plot_df :: frame where
  "example_plot_df =
     \<lparr>fcolumns =
     [''time'', ''pre_period_start'', ''pre_period_end'',
     ''post_period_start'', ''post_period_end'', ''value'', ''scale'',
     ''stat'', ''band_method'', ''lower'', ''upper'', ''zero'',
     ''scale_pretty'', ''stat_pretty''],
     frows =
     [[(''time'', Num 0), (''pre_period_start'', Num 0),
     (''pre_period_end'', Num 0), (''post_period_start'', Num 1),
     (''post_period_end'', Num 1), (''value'', Num 10),
     (''scale'', Str ''original''), (''stat'', Str ''observed''),
     (''band_method'', Str ''quantiles''), (''lower'', Num 7),
     (''upper'', Num 12), (''zero'', NaN),
     (''scale_pretty'', Str ''Original''),
     (''stat_pretty'', Str ''Observed'')],
     [(''time'', Num 0), (''pre_period_start'', Num 0),
     (''pre_period_end'', Num 0), (''post_period_start'', Num 1),
     (''post_period_end'', Num 1), (''value'', Num 10),
     (''scale'', Str ''original''), (''stat'', Str ''observed''),
     (''band_method'', Str ''std''), (''lower'', Num 7),
     (''upper'', Num 11), (''zero'', NaN),
     (''scale_pretty'', Str ''Original''),
     (''stat_pretty'', Str ''Observed'')],
     [(''time'', Num 0), (''pre_period_start'', Num 0),
     (''pre_period_end'', Num 0), (''post_period_start'', Num 1),
     (''post_period_end'', Num 1), (''value'', Num 9),
     (''scale'', Str ''original''), (''stat'', Str ''mean''),
     (''band_method'', Str ''quantiles''), (''lower'', Num 7),
     (''upper'', Num 12), (''zero'', NaN),
     (''scale_pretty'', Str ''Original''),
     (''stat_pretty'', Str ''Mean'')],
     [(''time'', Num 0), (''pre_period_start'', Num 0),
     (''pre_period_end'', Num 0), (''post_period_start'', Num 1),
     (''post_period_end'', Num 1), (''value'', Num 9),
     (''scale'', Str ''original''), (''stat'', Str ''mean''),
     (''band_method'', Str ''std''), (''lower'', Num 7),
     (''upper'', Num 11), (''zero'', NaN),
     (''scale_pretty'', Str ''Original''),
     (''stat_pretty'', Str ''Mean'')],
     [(''time'', Num 0), (''pre_period_start'', Num 0),
     (''pre_period_end'', Num 0), (''post_period_start'', Num 1),
     (''post_period_end'', Num 1), (''value'', Num 8),
     (''scale'', Str ''original''), (''stat'', Str ''median''),
     (''band_method'', Str ''quantiles''), (''lower'', Num 7),
     (''upper'', Num 12), (''zero'', NaN),
     (''scale_pretty'', Str ''Original''),
     (''stat_pretty'', Str ''Median'')],
     [(''time'', Num 0), (''pre_period_start'', Num 0),
     (''pre_period_end'', Num 0), (''post_period_start'', Num 1),
     (''post_period_end'', Num 1), (''value'', Num 8),
     (''scale'', Str ''original''), (''stat'', Str ''median''),
     (''band_method'', Str ''std''), (''lower'', Num 7),
     (''upper'', Num 11), (''zero'', NaN),
     (''scale_pretty'', Str ''Original''),
     (''stat_pretty'', Str ''Median'')],
     [(''time'', Num 0), (''pre_period_start'', Num 0),
     (''pre_period_end'', Num 0), (''post_period_start'', Num 1),
     (''post_period_end'', Num 1), (''value'', Num 1),
     (''scale'', Str ''cumulative_effects''),
     (''stat'', Str ''mean''), (''band_method'', Str ''std''),
     (''lower'', NaN), (''upper'', NaN), (''zero'', Num 0),
     (''scale_pretty'', Str ''Cumulative''),
     (''stat_pretty'', Str ''Mean'')]]\<rparr>"

section \<open>Properties of the dataset (data.py)\<close>

lemmas data_defs =
  CausalImpactData_init_def validate_data_and_columns_def series_std_def population_std_def
  is_numeric_dtype_def column_def cell_at_def select_columns_def count_valid_def
  is_missing_def loc_index_def dropna_def index_def whole_period_features_def set_cell_def
  set_column_list_def accept_periods_def unit_fit_def unit_transform_def Let_def
  power2_eq_square

subsection \<open>A constant target\<close>








subsection \<open>The slices\<close>

lemma index_select_columns: "index (select_columns t cs) = index t"
  by (simp add: index_def select_columns_def comp_def case_prod_unfold)

lemma index_loc_index: "index (loc_index p t) = filter p (index t)"
  by (simp add: index_def loc_index_def filter_map comp_def case_prod_unfold)

lemma validate_index:
  "validate_data_and_columns dat tgt = Inr (d, t, f) \<Longrightarrow> index d = index dat"
  unfolding validate_data_and_columns_def
  by (auto simp: Let_def index_select_columns
      split: sum.splits if_splits option.splits list.splits)

lemma init_slices:
  assumes "CausalImpactData_init pv fit tr dat pre post drop_nan tgt std = Inr ds"
  shows "\<exists>p q d t f. pv dat pre post = Inr (p, q) \<and>
           validate_data_and_columns dat tgt = Inr (d, t, f) \<and>
           pre_intervention_period ds = p \<and> data ds = d \<and>
           pre_intervention_data ds = loc_index (\<lambda>i. i \<ge> fst p \<and> i \<le> snd p) d \<and>
           after_pre_intervention_data ds = loc_index (\<lambda>i. i > snd p) d \<and>
           (\<not> std \<longrightarrow> normalized_pre_intervention_data ds = pre_intervention_data ds \<and>
               normalized_after_pre_intervention_data ds =
                 (if drop_nan then dropna (after_pre_intervention_data ds)
                  else after_pre_intervention_data ds))"
  using assms unfolding CausalImpactData_init_def
  by (auto simp: Let_def split: sum.splits if_splits prod.splits)

text \<open>
  C4. In every dataset that the constructor returns, the index of the pre-period slice
  lies in the closed interval from the start to the end of the validated pre-period, the
  pre-period of the dataset is the one the period validation returned, and the index of
  the after-pre-period slice is the index of the input table restricted to the entries
  strictly greater than the end of the pre-period, in the order of the table.
\<close>

theorem slices_follow_pre_period:
  assumes "CausalImpactData_init pv fit tr dat pre post drop_nan tgt std = Inr ds"
  shows "set (index (pre_intervention_data ds)) \<subseteq>
           {fst (pre_intervention_period ds) .. snd (pre_intervention_period ds)} \<and>
         index (after_pre_intervention_data ds) =
           filter (\<lambda>i. i > snd (pre_intervention_period ds)) (index dat) \<and>
         map_sum id fst (pv dat pre post) = Inr (pre_intervention_period ds)"
proof -
  from init_slices[OF assms] obtain p q d t f where
    pv: "pv dat pre post = Inr (p, q)" and
    v: "validate_data_and_columns dat tgt = Inr (d, t, f)" and
    p: "pre_intervention_period ds = p" and
    a: "pre_intervention_data ds = loc_index (\<lambda>i. i \<ge> fst p \<and> i \<le> snd p) d" and
    b: "after_pre_intervention_data ds = loc_index (\<lambda>i. i > snd p) d"
    by blast
  show ?thesis
    by (auto simp: a b p pv index_loc_index validate_index[OF v])
qed

theorem slices_follow_pre_period_witness:
  "\<exists>ds. CausalImpactData_init accept_periods unit_fit unit_transform gap_table (0, 2) (4, 5)
            True None True = Inr ds \<and>
        pre_intervention_period ds = (0, 2) \<and>
        index (pre_intervention_data ds) = [0, 1, 2] \<and>
        set (index (pre_intervention_data ds)) \<subseteq> {0 .. 2} \<and>
        index (after_pre_intervention_data ds) = [3, 4, 5] \<and>
        index (after_pre_intervention_data ds) = filter (\<lambda>i. i > 2) (index gap_table)"
proof -
  have "\<exists>ds. CausalImpactData_init accept_periods unit_fit unit_transform gap_table (0, 2) (4, 5)
            True None True = Inr ds \<and> pre_intervention_period ds = (0, 2) \<and>
            index (pre_intervention_data ds) = [0, 1, 2]"
    by (simp add: data_defs gap_table_def)
  then obtain ds where
    h: "CausalImpactData_init accept_periods unit_fit unit_transform gap_table (0, 2) (4, 5)
            True None True = Inr ds"
    and p: "pre_intervention_period ds = (0, 2)"
    and i: "index (pre_intervention_data ds) = [0, 1, 2]"
    by blast
  have g: "filter (\<lambda>i. i > 2) (index gap_table) = [3, 4, 5]"
    by (simp add: gap_table_def index_def)
  from slices_follow_pre_period[OF h] h p i g show ?thesis
    by (intro exI[of _ ds]) simp
qed

subsection \<open>The slices without standardization\<close>

text \<open>
  C5, as the claim states it, fails: with standardization disabled and the default
  \<^verbatim>\<open>drop_post_period_nan=True\<close>, a target that is missing at the last time step makes
  the normalized after-pre-period slice (empty) differ from the raw one (one row).
\<close>

theorem unstandardized_after_slice_counterexample:
  "(case CausalImpactData_init accept_periods unit_fit unit_transform open_end_table
           (0, 2) (3, 3) True None False of
      Inl e \<Rightarrow> False
    | Inr ds \<Rightarrow>
        normalized_after_pre_intervention_data ds \<noteq> after_pre_intervention_data ds \<and>
        rows (after_pre_intervention_data ds) = [(3, [(''y'', NaN)])] \<and>
        rows (normalized_after_pre_intervention_data ds) = [])"
  by (simp add: data_defs open_end_table_def)

text \<open>
  C5, amended. In every dataset constructed with standardization disabled, the normalized
  pre-period slice is the raw pre-period slice, and the normalized after-pre-period slice
  is the raw after-pre-period slice when \<^verbatim>\<open>drop_post_period_nan\<close> is false, and the raw
  after-pre-period slice without its rows that have a missing value when it is true.
\<close>

theorem unstandardized_slices:
  assumes "CausalImpactData_init pv fit tr dat pre post drop_nan tgt False = Inr ds"
  shows "normalized_pre_intervention_data ds = pre_intervention_data ds \<and>
         normalized_after_pre_intervention_data ds =
           (if drop_nan then dropna (after_pre_intervention_data ds)
            else after_pre_intervention_data ds)"
  using init_slices[OF assms] by auto

theorem unstandardized_slices_witness:
  "\<exists>ds. CausalImpactData_init accept_periods unit_fit unit_transform gap_table (0, 2) (4, 5)
            False None False = Inr ds \<and>
        normalized_pre_intervention_data ds = pre_intervention_data ds \<and>
        normalized_after_pre_intervention_data ds = after_pre_intervention_data ds \<and>
        index (normalized_after_pre_intervention_data ds) = [3, 4, 5]"
proof -
  have "\<exists>ds. CausalImpactData_init accept_periods unit_fit unit_transform gap_table (0, 2) (4, 5)
            False None False = Inr ds \<and> index (after_pre_intervention_data ds) = [3, 4, 5]"
    by (simp add: data_defs gap_table_def)
  then obtain ds where
    h: "CausalImpactData_init accept_periods unit_fit unit_transform gap_table (0, 2) (4, 5)
            False None False = Inr ds"
    and i: "index (after_pre_intervention_data ds) = [3, 4, 5]"
    by blast
  from unstandardized_slices[OF h] h i show ?thesis
    by (intro exI[of _ ds]) simp
qed

section \<open>Properties of the plot pipeline (plot.py)\<close>

subsection \<open>Cells of a row\<close>

lemma map_of_replace:
  "map_of (map (\<lambda>(k, x). if k = c then (k, v) else (k, x)) r) k' =
     (if k' = c then (if c \<in> fst ` set r then Some v else None) else map_of r k')"
  by (induction r) (auto split: if_splits)

lemma cell_at_set_cell: "cell_at (set_cell c v r) k = (if k = c then v else cell_at r k)"
proof (cases "c \<in> set (map fst r)")
  case True
  then show ?thesis
    by (simp add: cell_at_def set_cell_def map_of_replace)
next
  case False
  then have "map_of r c = None"
    by (simp add: map_of_eq_None_iff)
  with False show ?thesis
    by (auto simp: cell_at_def set_cell_def map_add_def split: option.splits)
qed

lemma set_cell_idem: "set_cell c v (set_cell c v r) = set_cell c v r"
proof (cases "c \<in> set (map fst r)")
  case True
  have keys: "map fst (map (\<lambda>(k, x). if k = c then (k, v) else (k, x)) r) = map fst r"
    by (induction r) auto
  have twice: "map (\<lambda>(k, x). if k = c then (k, v) else (k, x))
                 (map (\<lambda>(k, x). if k = c then (k, v) else (k, x)) r) =
               map (\<lambda>(k, x). if k = c then (k, v) else (k, x)) r"
    by (induction r) auto
  from True show ?thesis
    unfolding set_cell_def using keys twice by (simp del: map_map)
next
  case False
  have "map (\<lambda>(k, x). if k = c then (k, v) else (k, x)) r = r"
    using False by (induction r) auto
  with False show ?thesis
    by (simp add: set_cell_def)
qed

lemma set_column_list_idem: "set_column_list c (set_column_list c cs) = set_column_list c cs"
  by (simp add: set_column_list_def)

lemma with_time_idem: "with_time (with_time s) = with_time s"
  by (simp add: with_time_def set_column_list_idem set_cell_idem comp_def case_prod_unfold)

lemma create_plot_df_with_time: "create_plot_df q (with_time s) a = create_plot_df q s a"
  by (simp add: create_plot_df_def with_time_idem)

subsection \<open>Keyword arguments\<close>

lemma plot_params_eq:
  "plot_params kwargs =
     map (\<lambda>(k, v). (k, case map_of kwargs k of Some x \<Rightarrow> x | None \<Rightarrow> v)) plot_defaults"
proof (cases "kwargs = []")
  case True
  have "map (\<lambda>(k, v). (k, case map_of ([] :: (string \<times> pyval) list) k of Some x \<Rightarrow> x | None \<Rightarrow> v)) ps = ps"
    for ps :: "(string \<times> pyval) list"
    by (induction ps) auto
  with True show ?thesis by (simp add: plot_params_def)
next
  case False
  then show ?thesis by (simp add: plot_params_def)
qed

lemma plot_params_cong:
  assumes "\<forall>k\<in>set (map fst plot_defaults). map_of kw1 k = map_of kw2 k"
  shows "plot_params kw1 = plot_params kw2"
  unfolding plot_params_eq using assms by (intro map_cong) auto

text \<open>
  C10. When two dictionaries of keyword arguments give the same value (or none) to every
  one of the default option names, the effective plot parameters are the same, and so is
  the whole result of \<^verbatim>\<open>plot\<close> on the same evaluation table: the renderer chosen, the
  frame and the options handed to it, or the exception. Keys outside the default names
  are never read. The same holds for the second of two successive calls on one model
  object, whose evaluation table has gained the column \<^verbatim>\<open>time\<close> in the first call.
\<close>

theorem unknown_options_ignored:
  assumes "\<forall>k\<in>set (map fst plot_defaults). map_of kw1 k = map_of kw2 k"
  shows "plot_params kw1 = plot_params kw2 \<and>
         plot q series kw1 = plot q series kw2 \<and>
         snd (plot q (fst (plot q series kw1)) kw2) = snd (plot q series kw2)"
proof -
  have p: "plot_params kw1 = plot_params kw2"
    by (rule plot_params_cong[OF assms])
  have a: "plot q series kw1 = plot q series kw2"
    by (simp add: plot_def p)
  have b: "snd (plot q (fst (plot q series kw1)) kw2) = snd (plot q series kw2)"
    by (simp add: plot_def Let_def create_plot_df_with_time)
  from p a b show ?thesis by simp
qed

subsection \<open>The component name\<close>

text \<open>
  C8. For every component name outside lines, bands and std, the component extractor
  returns no frame: it ends with the error of class ValueError whose message carries the
  allowed set of the three names and the rejected name, whatever the table and the
  significance level are.
\<close>

theorem invalid_component_rejected:
  assumes "component \<notin> {''lines'', ''bands'', ''std''}"
  shows "create_plot_component_df q series component alpha =
           Inl (ComponentError {''lines'', ''bands'', ''std''} component) \<and>
         is_ValueError (ComponentError {''lines'', ''bands'', ''std''} component)"
  using assms by (simp add: create_plot_component_df_def valid_components_def)

theorem invalid_component_rejected_witness:
  "create_plot_component_df example_quantile example_series ''invalid'' (PFloat 0.05) =
     Inl (ComponentError {''lines'', ''bands'', ''std''} ''invalid'')"
  using invalid_component_rejected[of "''invalid''" example_quantile example_series "PFloat 0.05"]
  by simp

theorem unknown_options_ignored_witness:
  "plot example_quantile example_series [(''show_median'', PBool True), (''colour'', PStr ''red'')] =
   plot example_quantile example_series [(''verbose'', PInt 1), (''show_median'', PBool True)] \<and>
   plot example_quantile example_series [(''colour'', PStr ''red'')] =
   plot example_quantile example_series []"
  using unknown_options_ignored[of "[(''show_median'', PBool True), (''colour'', PStr ''red'')]"
      "[(''verbose'', PInt 1), (''show_median'', PBool True)]" example_quantile example_series]
    unknown_options_ignored[of "[(''colour'', PStr ''red'')]" "[]" example_quantile example_series]
  by (simp add: plot_defaults_def)

subsection \<open>The long form\<close>

lemma cell_at_map_cols: "cell_at (map (\<lambda>c. (c, f c)) cs) k = (if k \<in> set cs then f k else NaN)"
  by (induction cs) (auto simp: cell_at_def)

lemma cell_at_drop:
  "cell_at (filter (\<lambda>(k, v). k \<notin> set cs) r) k = (if k \<in> set cs then NaN else cell_at r k)"
  by (induction r) (auto simp: cell_at_def)

lemma frows_assign: "frows (assign c f fr) = map (\<lambda>r. set_cell c (f r) r) (frows fr)"
  by (simp add: assign_def)

lemma fcolumns_assign: "fcolumns (assign c f fr) = set_column_list c (fcolumns fr)"
  by (simp add: assign_def)

lemma frows_drop: "frows (drop_columns cs fr) = map (filter (\<lambda>(k, v). k \<notin> set cs)) (frows fr)"
  by (simp add: drop_columns_def)

lemma frows_classify: "frows (classify m) = map classified_row (frows m)"
  by (simp add: classify_def classified_row_def frows_assign Let_def)

lemma classified_cumulative_effects_mean:
  assumes "cell_at r ''scale_stat'' = Str ''cumulative_effects_mean''"
  shows "cell_at (classified_row r) ''scale'' = Str ''cumulative_effects''"
    and "cell_at (classified_row r) ''stat'' = Str ''mean''"
    and "cell_at (classified_row r) ''scale_stat'' = Str ''cumulative_effects_mean''"
  using assms
  by (simp_all add: classified_row_def Let_def cell_at_set_cell str_map_def str_test_def
      re_sub_delete_def re_search_def statistical_suffixes_def original_scale_keywords_def
      scale_prefixes_def)

lemma classified_scale_stat:
  "cell_at (classified_row r) ''scale_stat'' = cell_at r ''scale_stat''"
  by (simp add: classified_row_def Let_def cell_at_set_cell)

lemma melted_row_classified:
  "filter (\<lambda>p. fst p \<noteq> ''scale_stat'')
     (classified_row (map (\<lambda>k. (k, f k)) base_columns @ [(''scale_stat'', Str c), (''value'', v)])) =
   map (\<lambda>k. (k, f k)) base_columns
   @ [(''value'', v), (''scale'', Str (scale_of c)), (''stat'', Str (stat_of c))]"
  by (simp add: classified_row_def base_columns_def set_cell_def cell_at_def Let_def
      str_map_def str_test_def scale_of_def stat_of_def)

lemma melted_success:
  assumes "melted series component = Inr m"
  shows "list_all (\<lambda>k. k \<in> set (extracted_columns series component)) base_columns"
    and "fcolumns m = base_columns @ [''scale_stat'', ''value'']"
    and "frows m =
           concat (map (\<lambda>c. map (\<lambda>(i, s). map (\<lambda>k. (k, cell_at s k)) base_columns
                                      @ [(''scale_stat'', Str c), (''value'', cell_at s c)])
                               (rows series))
                       (value_columns series component))"
proof -
  let ?ext = "extracted_columns series component"
  from assms have ok: "list_all (\<lambda>k. k \<in> set ?ext) base_columns"
    and m: "m = \<lparr>fcolumns = base_columns @ [''scale_stat'', ''value''],
                frows = concat (map (\<lambda>c. map (\<lambda>(i, r). map (\<lambda>k. (k, cell_at r k)) base_columns
                                                      @ [(''scale_stat'', Str c), (''value'', cell_at r c)])
                                            (rows (select_columns series ?ext)))
                                   (filter (\<lambda>c. c \<notin> set base_columns) ?ext))\<rparr>"
    by (auto simp: melted_def melt_def Let_def extracted_columns_def select_columns_def
        split: if_splits)
  show "list_all (\<lambda>k. k \<in> set ?ext) base_columns" by (rule ok)
  show "fcolumns m = base_columns @ [''scale_stat'', ''value'']" by (simp add: m)
  have base: "k \<in> set base_columns \<Longrightarrow> k \<in> set ?ext" for k
    using ok by (simp add: list_all_iff)
  have inner: "c \<in> set ?ext \<Longrightarrow>
      map (\<lambda>(i, r). map (\<lambda>k. (k, cell_at r k)) base_columns
                    @ [(''scale_stat'', Str c), (''value'', cell_at r c)])
          (rows (select_columns series ?ext)) =
      map (\<lambda>(i, s). map (\<lambda>k. (k, cell_at s k)) base_columns
                    @ [(''scale_stat'', Str c), (''value'', cell_at s c)])
          (rows series)" for c
    using base
    by (auto simp: select_columns_def cell_at_map_cols comp_def case_prod_unfold)
  show "frows m =
           concat (map (\<lambda>c. map (\<lambda>(i, s). map (\<lambda>k. (k, cell_at s k)) base_columns
                                      @ [(''scale_stat'', Str c), (''value'', cell_at s c)])
                               (rows series))
                       (value_columns series component))"
  proof -
    have "map (\<lambda>c. map (\<lambda>(i, r). map (\<lambda>k. (k, cell_at r k)) base_columns
                                      @ [(''scale_stat'', Str c), (''value'', cell_at r c)])
                      (rows (select_columns series ?ext)))
              (value_columns series component) =
          map (\<lambda>c. map (\<lambda>(i, s). map (\<lambda>k. (k, cell_at s k)) base_columns
                                      @ [(''scale_stat'', Str c), (''value'', cell_at s c)])
                      (rows series))
              (value_columns series component)"
      by (rule map_cong[OF refl]) (simp add: inner value_columns_def)
    then show ?thesis
      by (simp only: m frame.select_convs value_columns_def)
  qed
qed

lemma lines_rows:
  assumes "create_plot_component_df q series ''lines'' alpha = Inr df"
  shows "fcolumns df = base_columns @ [''value'', ''scale'', ''stat'']"
    and "frows df = concat (map (\<lambda>c. map (\<lambda>(i, s). line_row s c) (rows series))
                                (value_columns series ''lines''))"
    and "list_all (\<lambda>k. k \<in> set (columns series)) base_columns"
proof -
  from assms obtain m where m: "melted series ''lines'' = Inr m"
    and df: "df = drop_columns [''scale_stat''] (classify m)"
    by (auto simp: create_plot_component_df_def valid_components_def split: sum.splits)
  note ms = melted_success[OF m]
  show "fcolumns df = base_columns @ [''value'', ''scale'', ''stat'']"
    by (simp add: df drop_columns_def classify_def Let_def fcolumns_assign ms(2)
        set_column_list_def base_columns_def)
  show "frows df = concat (map (\<lambda>c. map (\<lambda>(i, s). line_row s c) (rows series))
                                (value_columns series ''lines''))"
    unfolding df frows_drop frows_classify ms(3)
    by (simp add: map_concat comp_def case_prod_unfold melted_row_classified line_row_def)
  show "list_all (\<lambda>k. k \<in> set (columns series)) base_columns"
    using ms(1) by (auto simp: list_all_iff extracted_columns_def)
qed

lemma cumulative_effects_mean_names:
  "scale_of ''cumulative_effects_mean'' = ''cumulative_effects''"
  "stat_of ''cumulative_effects_mean'' = ''mean''"
  by (simp_all add: scale_of_def stat_of_def re_sub_delete_def re_search_def
      statistical_suffixes_def original_scale_keywords_def scale_prefixes_def)

lemma cumulative_effects_mean_selected:
  assumes "''cumulative_effects_mean'' \<in> set (columns series)"
  shows "''cumulative_effects_mean'' \<in> set (value_columns series ''lines'')"
    and "''cumulative_effects_mean'' \<in> set (value_columns series ''std'')"
  using assms
  by (simp_all add: value_columns_def extracted_columns_def required_columns_def base_columns_def)

text \<open>
  C6. In every classified frame, a row melted from the column
  \<^verbatim>\<open>cumulative_effects_mean\<close> has scale \<^verbatim>\<open>cumulative_effects\<close> and stat \<^verbatim>\<open>mean\<close> (so
  its scale is not the whole column name). And when the evaluation table has that column
  and the lines component is extracted, its frame has, for every row of the table, the row
  with the identifier cells of the table, the value of the column, scale
  \<^verbatim>\<open>cumulative_effects\<close> and stat \<^verbatim>\<open>mean\<close>.
\<close>

theorem cumulative_effects_mean_classified:
  assumes "''cumulative_effects_mean'' \<in> set (columns series)"
    and "create_plot_component_df q series ''lines'' alpha = Inr df"
  shows "(\<forall>m. \<forall>r\<in>set (frows (classify m)).
            cell_at r ''scale_stat'' = Str ''cumulative_effects_mean'' \<longrightarrow>
            cell_at r ''scale'' = Str ''cumulative_effects'' \<and> cell_at r ''stat'' = Str ''mean'') \<and>
         (\<forall>(i, s)\<in>set (rows series).
            map (\<lambda>k. (k, cell_at s k)) base_columns
            @ [(''value'', cell_at s ''cumulative_effects_mean''),
               (''scale'', Str ''cumulative_effects''), (''stat'', Str ''mean'')]
            \<in> set (frows df))"
proof -
  have a: "\<forall>m. \<forall>r\<in>set (frows (classify m)).
            cell_at r ''scale_stat'' = Str ''cumulative_effects_mean'' \<longrightarrow>
            cell_at r ''scale'' = Str ''cumulative_effects'' \<and> cell_at r ''stat'' = Str ''mean''"
    by (auto simp: frows_classify classified_scale_stat
        classified_cumulative_effects_mean(1,2))
  have sel: "''cumulative_effects_mean'' \<in> set (value_columns series ''lines'')"
    by (rule cumulative_effects_mean_selected(1)[OF assms(1)])
  have b: "\<forall>(i, s)\<in>set (rows series).
            line_row s ''cumulative_effects_mean'' \<in> set (frows df)"
    using sel by (force simp: lines_rows(2)[OF assms(2)])
  from a b show ?thesis
    by (simp add: line_row_def cumulative_effects_mean_names)
qed

subsection \<open>The merge and the derived columns\<close>

lemma merged_row_keys:
  assumes "merge_left l b merge_keys = Inr m"
    and "fcolumns l = base_columns @ [''value'', ''scale'', ''stat'']"
    and "r \<in> set (frows m)"
  shows "\<exists>a\<in>set (frows l).
           cell_at r ''time'' = cell_at a ''time'' \<and>
           cell_at r ''scale'' = cell_at a ''scale'' \<and>
           cell_at r ''pre_period_start'' = cell_at a ''pre_period_start'' \<and>
           cell_at r ''pre_period_end'' = cell_at a ''pre_period_end'' \<and>
           cell_at r ''post_period_start'' = cell_at a ''post_period_start'' \<and>
           cell_at r ''post_period_end'' = cell_at a ''post_period_end''"
proof -
  define rrest where "rrest = filter (\<lambda>c. c \<notin> set merge_keys) (fcolumns b)"
  define lname where "lname = (\<lambda>c. if c \<notin> set merge_keys \<and> c \<in> set rrest then c @ ''_x'' else c)"
  define rname where "rname = (\<lambda>c. if c \<in> set (fcolumns l) then c @ ''_y'' else c)"
  from assms(1) have m: "frows m = concat (map (\<lambda>a.
                    map (\<lambda>b. map (\<lambda>c. (lname c, cell_at a c)) (fcolumns l)
                            @ map (\<lambda>c. (rname c, cell_at b c)) rrest)
                        (case filter (\<lambda>b. key_of merge_keys b = key_of merge_keys a) (frows b) of
                           [] \<Rightarrow> [[]]
                         | m # ms \<Rightarrow> m # ms))
                    (frows l))"
    by (auto simp: merge_left_def Let_def rrest_def lname_def rname_def split: if_splits)
  from assms(3) obtain a b' where a: "a \<in> set (frows l)"
    and r: "r = map (\<lambda>c. (lname c, cell_at a c)) (fcolumns l)
                @ map (\<lambda>c. (rname c, cell_at b' c)) rrest"
    unfolding m by auto
  have "cell_at r ''time'' = cell_at a ''time'' \<and>
        cell_at r ''scale'' = cell_at a ''scale'' \<and>
        cell_at r ''pre_period_start'' = cell_at a ''pre_period_start'' \<and>
        cell_at r ''pre_period_end'' = cell_at a ''pre_period_end'' \<and>
        cell_at r ''post_period_start'' = cell_at a ''post_period_start'' \<and>
        cell_at r ''post_period_end'' = cell_at a ''post_period_end''"
    unfolding r assms(2)
    by (simp add: base_columns_def lname_def merge_keys_def cell_at_def)
  with a show ?thesis by blast
qed

lemma line_row_base:
  "cell_at (line_row s c) ''time'' = cell_at s ''time''"
  "cell_at (line_row s c) ''pre_period_start'' = cell_at s ''pre_period_start''"
  "cell_at (line_row s c) ''pre_period_end'' = cell_at s ''pre_period_end''"
  "cell_at (line_row s c) ''post_period_start'' = cell_at s ''post_period_start''"
  "cell_at (line_row s c) ''post_period_end'' = cell_at s ''post_period_end''"
  by (simp_all add: line_row_def base_columns_def cell_at_def)

lemma decorate_rows:
  assumes "decorate p = Inr df" and "r \<in> set (frows df)"
  shows "\<exists>a\<in>set (frows p). \<forall>k. k \<notin> {''zero'', ''scale_pretty'', ''stat_pretty''} \<longrightarrow>
           cell_at r k = cell_at a k"
proof -
  from assms(1) obtain f g h where
    df: "df = assign ''stat_pretty'' h (assign ''scale_pretty'' g (assign ''zero'' f p))"
    by (auto simp: decorate_def Let_def split: if_splits)
  have "frows df =
          map (\<lambda>x. set_cell ''stat_pretty''
                      (h (set_cell ''scale_pretty'' (g (set_cell ''zero'' (f x) x))
                            (set_cell ''zero'' (f x) x)))
                      (set_cell ''scale_pretty'' (g (set_cell ''zero'' (f x) x))
                         (set_cell ''zero'' (f x) x)))
              (frows p)"
    by (simp add: df frows_assign comp_def)
  with assms(2) obtain x where x: "x \<in> set (frows p)"
    and r: "r = set_cell ''stat_pretty''
                  (h (set_cell ''scale_pretty'' (g (set_cell ''zero'' (f x) x))
                        (set_cell ''zero'' (f x) x)))
                  (set_cell ''scale_pretty'' (g (set_cell ''zero'' (f x) x))
                     (set_cell ''zero'' (f x) x))"
    by auto
  have "\<forall>k. k \<notin> {''zero'', ''scale_pretty'', ''stat_pretty''} \<longrightarrow>
           cell_at r k = cell_at x k"
    unfolding r by (simp add: cell_at_set_cell)
  with x show ?thesis by blast
qed

lemma decorate_columns:
  assumes "decorate p = Inr df"
  shows "set (fcolumns p) \<subseteq> set (fcolumns df)"
  using assms
  by (auto simp: decorate_def Let_def fcolumns_assign set_column_list_def split: if_splits)

lemma merged_columns:
  assumes "merge_left l b merge_keys = Inr m"
  shows "set merge_keys \<subseteq> set (fcolumns m)"
proof -
  from assms have ok: "list_all (\<lambda>k. k \<in> set (fcolumns l) \<and> k \<in> set (fcolumns b)) merge_keys"
    by (auto simp: merge_left_def split: if_splits)
  have "k \<in> set merge_keys \<Longrightarrow> k \<in> set (fcolumns m)" for k
  proof -
    assume k: "k \<in> set merge_keys"
    with ok have "k \<in> set (fcolumns l)" by (auto simp: list_all_iff)
    then have "(if k \<notin> set merge_keys \<and> k \<in> set (filter (\<lambda>c. c \<notin> set merge_keys) (fcolumns b))
                then k @ ''_x'' else k) \<in>
               (\<lambda>c. if c \<notin> set merge_keys \<and> c \<in> set (filter (\<lambda>c. c \<notin> set merge_keys) (fcolumns b))
                    then c @ ''_x'' else c) ` set (fcolumns l)"
      by (rule imageI)
    with k assms show ?thesis
      by (auto simp: merge_left_def Let_def split: if_splits)
  qed
  then show ?thesis by blast
qed

text \<open>
  C9. When the plot frame is assembled, it has the four period-boundary columns, and every
  one of its rows carries, in these columns, the values of one row of the evaluation
  table, the row whose index is the time of the plot-frame row: the selection of columns,
  the melt, the merge and the derived columns leave them as they are.
\<close>

theorem period_boundaries_carried:
  assumes "create_plot_df q series alpha = Inr df"
  shows "{''pre_period_start'', ''pre_period_end'', ''post_period_start'', ''post_period_end''}
           \<subseteq> set (fcolumns df) \<and>
         (\<forall>r\<in>set (frows df). \<exists>(i, s)\<in>set (rows series).
            cell_at r ''time'' = Num (of_int i) \<and>
            cell_at r ''pre_period_start'' = cell_at s ''pre_period_start'' \<and>
            cell_at r ''pre_period_end'' = cell_at s ''pre_period_end'' \<and>
            cell_at r ''post_period_start'' = cell_at s ''post_period_start'' \<and>
            cell_at r ''post_period_end'' = cell_at s ''post_period_end'')"
proof -
  from assms obtain l b m where
    l: "create_plot_component_df q (with_time series) ''lines'' (PFloat 0.05) = Inr l" and
    m: "merge_left l b merge_keys = Inr m" and
    d: "decorate m = Inr df"
    by (auto simp: create_plot_df_def Let_def split: sum.splits if_splits)
  note lr = lines_rows[OF l]
  have cols: "{''pre_period_start'', ''pre_period_end'', ''post_period_start'', ''post_period_end''}
           \<subseteq> set (fcolumns df)"
    using merged_columns[OF m] decorate_columns[OF d] by (auto simp: merge_keys_def)
  have rows: "\<exists>(i, s)\<in>set (rows series).
            cell_at r ''time'' = Num (of_int i) \<and>
            cell_at r ''pre_period_start'' = cell_at s ''pre_period_start'' \<and>
            cell_at r ''pre_period_end'' = cell_at s ''pre_period_end'' \<and>
            cell_at r ''post_period_start'' = cell_at s ''post_period_start'' \<and>
            cell_at r ''post_period_end'' = cell_at s ''post_period_end''"
    if r: "r \<in> set (frows df)" for r
  proof -
    from decorate_rows[OF d r] obtain a where a: "a \<in> set (frows m)"
      and ra: "\<forall>k. k \<notin> {''zero'', ''scale_pretty'', ''stat_pretty''} \<longrightarrow> cell_at r k = cell_at a k"
      by blast
    from merged_row_keys[OF m lr(1) a] obtain x where x: "x \<in> set (frows l)"
      and ax: "cell_at a ''time'' = cell_at x ''time''"
        "cell_at a ''pre_period_start'' = cell_at x ''pre_period_start''"
        "cell_at a ''pre_period_end'' = cell_at x ''pre_period_end''"
        "cell_at a ''post_period_start'' = cell_at x ''post_period_start''"
        "cell_at a ''post_period_end'' = cell_at x ''post_period_end''"
      by blast
    from x obtain c i s where s: "(i, s) \<in> set (rows series)"
      and xs: "x = line_row (set_cell ''time'' (Num (of_int i)) s) c"
      unfolding lr(2) by (auto simp: with_time_def)
    have "cell_at r ''time'' = Num (of_int i) \<and>
          cell_at r ''pre_period_start'' = cell_at s ''pre_period_start'' \<and>
          cell_at r ''pre_period_end'' = cell_at s ''pre_period_end'' \<and>
          cell_at r ''post_period_start'' = cell_at s ''post_period_start'' \<and>
          cell_at r ''post_period_end'' = cell_at s ''post_period_end''"
      using ra ax by (simp add: xs line_row_base cell_at_set_cell)
    with s show ?thesis by blast
  qed
  from cols rows show ?thesis by blast
qed

subsection \<open>The std component\<close>

lemma cell_arith_num:
  "cell_arith (-) (Num m) (cell_arith (*) (Num z) (Num sd)) = Num (m - z * sd)"
  "cell_arith (+) (Num m) (cell_arith (*) (Num z) (Num sd)) = Num (m + z * sd)"
  by (simp_all add: cell_arith_def)

lemma cell_at_drop_mean_std:
  "cell_at (filter (\<lambda>(k, v). k \<noteq> ''mean'' \<and> k \<noteq> ''std'') r) k =
     (if k = ''mean'' \<or> k = ''std'' then NaN else cell_at r k)"
  using cell_at_drop[of "[''mean'', ''std'']" r k] by simp

lemma pivoted_band_method:
  assumes "pivoted series component = Inr p" and "r \<in> set (frows p)"
  shows "cell_at r ''band_method'' = Str (if component = ''bands'' then ''quantiles'' else ''std'')"
  using assms
  by (auto simp: pivoted_def frows_assign cell_at_set_cell split: sum.splits)

lemma std_component_rows:
  assumes "create_plot_component_df q series ''std'' alpha = Inr df"
  shows "\<exists>a p. as_number alpha = Some a \<and> pivoted series ''std'' = Inr p \<and>
           ''mean'' \<in> set (fcolumns p) \<and> ''std'' \<in> set (fcolumns p) \<and>
           ''mean'' \<notin> set (fcolumns df) \<and> ''std'' \<notin> set (fcolumns df) \<and>
           ''lower'' \<in> set (fcolumns df) \<and> ''upper'' \<in> set (fcolumns df) \<and>
           length (frows df) = length (frows p) \<and>
           (\<forall>r\<in>set (frows df). \<exists>s\<in>set (frows p).
               cell_at r ''lower'' =
                 cell_arith (-) (cell_at s ''mean'')
                   (cell_arith (*) (Num (q (1 - a / 2))) (cell_at s ''std'')) \<and>
               cell_at r ''upper'' =
                 cell_arith (+) (cell_at s ''mean'')
                   (cell_arith (*) (Num (q (1 - a / 2))) (cell_at s ''std'')) \<and>
               (\<forall>k. k \<notin> {''lower'', ''upper'', ''mean'', ''std''} \<longrightarrow>
                  cell_at r k = cell_at s k) \<and>
               ''mean'' \<notin> fst ` set r \<and> ''std'' \<notin> fst ` set r)"
proof -
  from assms obtain a p where a: "as_number alpha = Some a"
    and p: "pivoted series ''std'' = Inr p"
    and m: "''mean'' \<in> set (fcolumns p)" and sd: "''std'' \<in> set (fcolumns p)"
    and df: "df = drop_columns [''mean'', ''std'']
               (assign ''upper''
                  (\<lambda>r. cell_arith (+) (cell_at r ''mean'')
                         (cell_arith (*) (Num (q (1 - a / 2))) (cell_at r ''std'')))
                  (assign ''lower''
                     (\<lambda>r. cell_arith (-) (cell_at r ''mean'')
                            (cell_arith (*) (Num (q (1 - a / 2))) (cell_at r ''std'')))
                     p))"
    by (auto simp: create_plot_component_df_def valid_components_def Let_def
        split: sum.splits option.splits if_splits)
  have cols: "''mean'' \<notin> set (fcolumns df) \<and> ''std'' \<notin> set (fcolumns df) \<and>
           ''lower'' \<in> set (fcolumns df) \<and> ''upper'' \<in> set (fcolumns df)"
    by (auto simp: df drop_columns_def fcolumns_assign set_column_list_def)
  define F where "F = (\<lambda>s. filter (\<lambda>(k, v). k \<notin> set [''mean'', ''std''])
        (set_cell ''upper''
           (cell_arith (+) (cell_at (set_cell ''lower'' (cell_arith (-) (cell_at s ''mean'')
                   (cell_arith (*) (Num (q (1 - a / 2))) (cell_at s ''std''))) s) ''mean'')
              (cell_arith (*) (Num (q (1 - a / 2)))
                 (cell_at (set_cell ''lower'' (cell_arith (-) (cell_at s ''mean'')
                   (cell_arith (*) (Num (q (1 - a / 2))) (cell_at s ''std''))) s) ''std'')))
           (set_cell ''lower'' (cell_arith (-) (cell_at s ''mean'')
                   (cell_arith (*) (Num (q (1 - a / 2))) (cell_at s ''std''))) s)))"
  have rows: "frows df = map F (frows p)"
    by (simp add: df frows_drop frows_assign comp_def F_def)
  have one: "cell_at (F s) ''lower'' =
                 cell_arith (-) (cell_at s ''mean'')
                   (cell_arith (*) (Num (q (1 - a / 2))) (cell_at s ''std'')) \<and>
               cell_at (F s) ''upper'' =
                 cell_arith (+) (cell_at s ''mean'')
                   (cell_arith (*) (Num (q (1 - a / 2))) (cell_at s ''std'')) \<and>
               (\<forall>k. k \<notin> {''lower'', ''upper'', ''mean'', ''std''} \<longrightarrow>
                  cell_at (F s) k = cell_at s k) \<and>
               ''mean'' \<notin> fst ` set (F s) \<and> ''std'' \<notin> fst ` set (F s)" for s
    by (auto simp: F_def cell_at_drop_mean_std cell_at_set_cell)
  have "\<forall>r\<in>set (frows df). \<exists>s\<in>set (frows p).
               cell_at r ''lower'' =
                 cell_arith (-) (cell_at s ''mean'')
                   (cell_arith (*) (Num (q (1 - a / 2))) (cell_at s ''std'')) \<and>
               cell_at r ''upper'' =
                 cell_arith (+) (cell_at s ''mean'')
                   (cell_arith (*) (Num (q (1 - a / 2))) (cell_at s ''std'')) \<and>
               (\<forall>k. k \<notin> {''lower'', ''upper'', ''mean'', ''std''} \<longrightarrow>
                  cell_at r k = cell_at s k) \<and>
               ''mean'' \<notin> fst ` set r \<and> ''std'' \<notin> fst ` set r"
    unfolding rows using one by auto
  moreover have "length (frows df) = length (frows p)"
    by (simp add: rows)
  ultimately show ?thesis
    using a p m sd cols by blast
qed

lemma set_insert_key: "set (insert_key k xs) = insert k (set xs)"
  by (induction xs) auto

lemma set_sort_keys: "set (sort_keys ks) = set ks"
  by (induction ks) (auto simp: sort_keys_def set_insert_key)

lemma cell_at_zip_append:
  assumes "distinct idx" and "length k = length idx" and "j < length idx"
  shows "cell_at (zip idx k @ rest) (idx ! j) = k ! j"
proof -
  have "map_of (zip idx k) (idx ! j) = Some (k ! j)"
    using assms by (simp add: map_of_zip_nth)
  then show ?thesis
    by (simp add: cell_at_def map_add_def)
qed

lemma key_of_zip_append:
  assumes "distinct idx" and "length k = length idx"
  shows "key_of idx (zip idx k @ rest) = k"
  using assms by (auto simp: key_of_def list_eq_iff_nth_eq cell_at_zip_append)

lemma cell_at_after_zip:
  assumes "l \<notin> set idx"
  shows "cell_at (zip idx k @ rest) l = cell_at rest l"
proof -
  have "map_of (zip idx k) l = None"
    using assms by (auto simp: map_of_eq_None_iff dest: set_zip_leftD)
  then show ?thesis
    by (simp add: cell_at_def map_add_def)
qed

lemma pivot_table_rows:
  assumes "pivot_table fr idx col val = Inr p" and "distinct idx" and "s \<in> set (frows p)"
  shows "\<not> list_ex is_missing (key_of idx s)"
    and "l \<in> set (fcolumns p) \<Longrightarrow> l \<notin> set idx \<Longrightarrow>
         cell_at s l =
           nanmean (map (\<lambda>r. cell_at r val)
                      (filter (\<lambda>r. key_of idx r = key_of idx s \<and> cell_at r col = Str l) (frows fr)))"
proof -
  define live where
    "live = filter (\<lambda>r. \<not> list_ex (\<lambda>k. is_missing (cell_at r k)) (idx @ [col])) (frows fr)"
  define mean_of where
    "mean_of = (\<lambda>k s. nanmean (map (\<lambda>r. cell_at r val)
                        (filter (\<lambda>r. key_of idx r = k \<and> cell_at r col = s) live)))"
  define kept where
    "kept = filter (\<lambda>r. \<not> is_missing (mean_of (key_of idx r) (cell_at r col))) live"
  define labels where "labels = sort (remdups (map (\<lambda>r. label (cell_at r col)) kept))"
  from assms(1) have cols: "fcolumns p = idx @ labels"
    and rows: "frows p = map (\<lambda>k. zip idx k @ map (\<lambda>s. (s, mean_of k (Str s))) labels)
                           (sort_keys (remdups (map (key_of idx) kept)))"
    by (auto simp: pivot_table_def Let_def live_def mean_of_def kept_def labels_def
        split: if_splits)
  from assms(3) obtain r0 where r0: "r0 \<in> set kept"
    and s: "s = zip idx (key_of idx r0) @ map (\<lambda>s. (s, mean_of (key_of idx r0) (Str s))) labels"
    unfolding rows by (auto simp: set_sort_keys)
  have len: "length (key_of idx r0) = length idx"
    by (simp add: key_of_def)
  have key: "key_of idx s = key_of idx r0"
    unfolding s by (rule key_of_zip_append[OF assms(2) len])
  from r0 have r0live: "r0 \<in> set live"
    by (simp add: kept_def)
  then have nomiss: "\<not> list_ex is_missing (key_of idx r0)"
    by (auto simp: live_def key_of_def list_ex_iff)
  show "\<not> list_ex is_missing (key_of idx s)"
    using nomiss key by simp
  have same: "filter (\<lambda>r. key_of idx r = key_of idx r0 \<and> cell_at r col = Str l) live =
              filter (\<lambda>r. key_of idx r = key_of idx r0 \<and> cell_at r col = Str l) (frows fr)"
    unfolding live_def filter_filter
  proof (rule filter_cong[OF refl])
    fix r assume "r \<in> set (frows fr)"
    show "(\<not> list_ex (\<lambda>k. is_missing (cell_at r k)) (idx @ [col]) \<and>
           key_of idx r = key_of idx r0 \<and> cell_at r col = Str l) =
          (key_of idx r = key_of idx r0 \<and> cell_at r col = Str l)"
    proof (cases "key_of idx r = key_of idx r0 \<and> cell_at r col = Str l")
      case True
      then have "\<not> list_ex is_missing (key_of idx r)"
        using nomiss by simp
      then have "\<not> list_ex (\<lambda>k. is_missing (cell_at r k)) idx"
        by (simp add: key_of_def list_ex_iff)
      with True show ?thesis
        by (simp add: is_missing_def)
    next
      case False
      then show ?thesis by blast
    qed
  qed
  show "cell_at s l =
           nanmean (map (\<lambda>r. cell_at r val)
                      (filter (\<lambda>r. key_of idx r = key_of idx s \<and> cell_at r col = Str l) (frows fr)))"
    if l: "l \<in> set (fcolumns p)" and notidx: "l \<notin> set idx"
  proof -
    from l notidx have "l \<in> set labels"
      by (simp add: cols)
    then have "cell_at s l = mean_of (key_of idx r0) (Str l)"
      unfolding s by (simp add: cell_at_after_zip[OF notidx] cell_at_map_cols)
    then show ?thesis
      by (simp add: mean_of_def same key)
  qed
qed

lemma long_form_rows:
  assumes "melted series component = Inr m"
  shows "frows (drop_columns [''scale_stat''] (classify m)) = long_rows series component"
    and "fcolumns (drop_columns [''scale_stat''] (classify m)) =
           base_columns @ [''value'', ''scale'', ''stat'']"
proof -
  note ms = melted_success[OF assms]
  show "frows (drop_columns [''scale_stat''] (classify m)) = long_rows series component"
    unfolding frows_drop frows_classify ms(3) long_rows_def
    by (simp add: map_concat comp_def case_prod_unfold melted_row_classified line_row_def)
  show "fcolumns (drop_columns [''scale_stat''] (classify m)) =
           base_columns @ [''value'', ''scale'', ''stat'']"
    by (simp add: drop_columns_def classify_def Let_def fcolumns_assign ms(2)
        set_column_list_def base_columns_def)
qed

lemma pivoted_cells:
  assumes "pivoted series ''std'' = Inr p" and "s \<in> set (frows p)"
    and "l \<in> set (fcolumns p)" and "l \<notin> set pivot_columns" and "l \<noteq> ''band_method''"
  shows "cell_at s l = band_stat series l (key_of pivot_columns s)"
proof -
  from assms(1) obtain m p0 where m: "melted series ''std'' = Inr m"
    and p0: "pivot_table (drop_columns [''scale_stat''] (classify m)) pivot_columns
               ''stat'' ''value'' = Inr p0"
    and p: "p = assign ''band_method'' (\<lambda>r. Str ''std'') p0"
    by (auto simp: pivoted_def split: sum.splits)
  from assms(2) obtain s0 where s0: "s0 \<in> set (frows p0)"
    and s: "s = set_cell ''band_method'' (Str ''std'') s0"
    by (auto simp: p frows_assign)
  have l0: "l \<in> set (fcolumns p0)"
    using assms(3,5) by (auto simp: p fcolumns_assign set_column_list_def split: if_splits)
  have d: "distinct pivot_columns"
    by (simp add: pivot_columns_def)
  have key: "key_of pivot_columns s = key_of pivot_columns s0"
    by (simp add: s key_of_def pivot_columns_def cell_at_set_cell)
  have "cell_at s l = cell_at s0 l"
    using assms(5) by (simp add: s cell_at_set_cell)
  also have "\<dots> = nanmean (map (\<lambda>r. cell_at r ''value'')
                      (filter (\<lambda>r. key_of pivot_columns r = key_of pivot_columns s0 \<and>
                                   cell_at r ''stat'' = Str l)
                              (frows (drop_columns [''scale_stat''] (classify m)))))"
    by (rule pivot_table_rows(2)[OF p0 d s0 l0 assms(4)])
  finally show ?thesis
    by (simp add: band_stat_def long_form_rows(1)[OF m] key)
qed

text \<open>
  C7. When the std component is extracted, the significance level is a number \<open>a\<close>, and
  with \<open>z\<close> the value of the normal quantile function at \<open>1 - a / 2\<close>, every row of the
  result has lower = mean - z * std and upper = mean + z * std, where mean and std are
  the statistics of the row's key (time, scale and period boundaries): the means of the
  cells of the table that the extractor classifies under that key as \<^verbatim>\<open>mean\<close> and as
  \<^verbatim>\<open>std\<close>. A missing operand gives a missing bound. The columns \<^verbatim>\<open>mean\<close> and \<^verbatim>\<open>std\<close> are
  gone from the frame and from its rows, and every row has band method \<^verbatim>\<open>std\<close>.
\<close>

theorem std_component_bounds:
  assumes "create_plot_component_df q series ''std'' alpha = Inr df"
  shows "\<exists>a. as_number alpha = Some a \<and>
           ''mean'' \<notin> set (fcolumns df) \<and> ''std'' \<notin> set (fcolumns df) \<and>
           ''lower'' \<in> set (fcolumns df) \<and> ''upper'' \<in> set (fcolumns df) \<and>
           (\<forall>r\<in>set (frows df).
               cell_at r ''lower'' =
                 cell_arith (-) (band_stat series ''mean'' (key_of pivot_columns r))
                   (cell_arith (*) (Num (q (1 - a / 2)))
                      (band_stat series ''std'' (key_of pivot_columns r))) \<and>
               cell_at r ''upper'' =
                 cell_arith (+) (band_stat series ''mean'' (key_of pivot_columns r))
                   (cell_arith (*) (Num (q (1 - a / 2)))
                      (band_stat series ''std'' (key_of pivot_columns r))) \<and>
               cell_at r ''band_method'' = Str ''std'' \<and>
               ''mean'' \<notin> fst ` set r \<and> ''std'' \<notin> fst ` set r)"
proof -
  from std_component_rows[OF assms] obtain a p where a: "as_number alpha = Some a"
    and p: "pivoted series ''std'' = Inr p"
    and m: "''mean'' \<in> set (fcolumns p)" and sd: "''std'' \<in> set (fcolumns p)"
    and cols: "''mean'' \<notin> set (fcolumns df)" "''std'' \<notin> set (fcolumns df)"
              "''lower'' \<in> set (fcolumns df)" "''upper'' \<in> set (fcolumns df)"
    and rows: "\<forall>r\<in>set (frows df). \<exists>s\<in>set (frows p).
               cell_at r ''lower'' =
                 cell_arith (-) (cell_at s ''mean'')
                   (cell_arith (*) (Num (q (1 - a / 2))) (cell_at s ''std'')) \<and>
               cell_at r ''upper'' =
                 cell_arith (+) (cell_at s ''mean'')
                   (cell_arith (*) (Num (q (1 - a / 2))) (cell_at s ''std'')) \<and>
               (\<forall>k. k \<notin> {''lower'', ''upper'', ''mean'', ''std''} \<longrightarrow>
                  cell_at r k = cell_at s k) \<and>
               ''mean'' \<notin> fst ` set r \<and> ''std'' \<notin> fst ` set r"
    by blast
  have "cell_at r ''lower'' =
                 cell_arith (-) (band_stat series ''mean'' (key_of pivot_columns r))
                   (cell_arith (*) (Num (q (1 - a / 2)))
                      (band_stat series ''std'' (key_of pivot_columns r))) \<and>
               cell_at r ''upper'' =
                 cell_arith (+) (band_stat series ''mean'' (key_of pivot_columns r))
                   (cell_arith (*) (Num (q (1 - a / 2)))
                      (band_stat series ''std'' (key_of pivot_columns r))) \<and>
               cell_at r ''band_method'' = Str ''std'' \<and>
               ''mean'' \<notin> fst ` set r \<and> ''std'' \<notin> fst ` set r"
    if r: "r \<in> set (frows df)" for r
  proof -
    from rows r obtain s where s: "s \<in> set (frows p)"
      and lo: "cell_at r ''lower'' =
                 cell_arith (-) (cell_at s ''mean'')
                   (cell_arith (*) (Num (q (1 - a / 2))) (cell_at s ''std''))"
      and up: "cell_at r ''upper'' =
                 cell_arith (+) (cell_at s ''mean'')
                   (cell_arith (*) (Num (q (1 - a / 2))) (cell_at s ''std''))"
      and same: "\<forall>k. k \<notin> {''lower'', ''upper'', ''mean'', ''std''} \<longrightarrow> cell_at r k = cell_at s k"
      and gone: "''mean'' \<notin> fst ` set r" "''std'' \<notin> fst ` set r"
      by blast
    have key: "key_of pivot_columns r = key_of pivot_columns s"
      using same by (simp add: key_of_def pivot_columns_def)
    have bm: "cell_at r ''band_method'' = Str ''std''"
      using same pivoted_band_method[OF p s] by simp
    have cm: "cell_at s ''mean'' = band_stat series ''mean'' (key_of pivot_columns s)"
      by (rule pivoted_cells[OF p s m]) (simp_all add: pivot_columns_def)
    have cs: "cell_at s ''std'' = band_stat series ''std'' (key_of pivot_columns s)"
      by (rule pivoted_cells[OF p s sd]) (simp_all add: pivot_columns_def)
    show ?thesis
      using lo up bm gone by (simp add: key cm cs)
  qed
  with a cols show ?thesis by blast
qed

subsection \<open>The example, evaluated\<close>

lemma example_lines:
  "create_plot_component_df example_quantile (with_time example_series) ''lines'' (PFloat 0.05) =
     Inr example_lines_df"
  by code_simp

lemma example_std:
  "create_plot_component_df example_quantile (with_time example_series) ''std'' (PFloat 0.05) =
     Inr example_std_df"
  by code_simp

lemma example_plot:
  "create_plot_df example_quantile example_series (PFloat 0.05) = Inr example_plot_df"
  by code_simp

lemma default_alpha:
  "param (plot_params [(''use_std_intervals'', PBool True)]) ''alpha'' = PFloat 0.05"
  "param (plot_params [(''show_median'', PBool True)]) ''alpha'' = PFloat 0.05"
  "param (plot_params []) ''alpha'' = PFloat 0.05"
  by code_simp+

text \<open>
  C1. On the example table, which has quantile bounds and a standard deviation for the
  original scale, \<^verbatim>\<open>plot\<close> with \<^verbatim>\<open>use_std_intervals=True\<close> hands the renderer a frame with
  two band methods, \<^verbatim>\<open>quantiles\<close> and \<^verbatim>\<open>std\<close>: the filter compares the column with
  \<^verbatim>\<open>quantile\<close>, a value the extractor never writes, so it removes no row.
\<close>

theorem std_intervals_keep_quantile_bands:
  "map_sum id (\<lambda>r. remdups (map (\<lambda>x. cell_at x ''band_method'') (frows (rendered_frame r))))
     (snd (plot example_quantile example_series [(''use_std_intervals'', PBool True)])) =
   Inr [Str ''quantiles'', Str ''std'']"
proof -
  have "map_sum id (\<lambda>r. remdups (map (\<lambda>x. cell_at x ''band_method'') (frows (rendered_frame r))))
          (draw (plot_params [(''use_std_intervals'', PBool True)]) example_plot_df) =
        Inr [Str ''quantiles'', Str ''std'']"
    by code_simp
  then show ?thesis
    by (simp only: plot_def Let_def snd_conv default_alpha example_plot sum.case)
qed

text \<open>
  C2. On the example table, which has a posterior median, \<^verbatim>\<open>plot\<close> with
  \<^verbatim>\<open>show_median=True\<close> hands the renderer a frame with no row of stat \<^verbatim>\<open>median\<close>, and
  \<^verbatim>\<open>plot\<close> with the defaults (\<^verbatim>\<open>show_median=False\<close>) hands it a frame with the median
  row: the block that drops the median runs when the option is set.
\<close>

theorem show_median_drops_median_rows:
  "map_sum id (\<lambda>r. map (\<lambda>x. cell_at x ''stat'') (frows (rendered_frame r)))
     (snd (plot example_quantile example_series [(''show_median'', PBool True)])) =
   Inr [Str ''observed'', Str ''mean''] \<and>
   map_sum id (\<lambda>r. map (\<lambda>x. cell_at x ''stat'') (frows (rendered_frame r)))
     (snd (plot example_quantile example_series [])) =
   Inr [Str ''observed'', Str ''mean'', Str ''median'']"
proof -
  have "map_sum id (\<lambda>r. map (\<lambda>x. cell_at x ''stat'') (frows (rendered_frame r)))
          (draw (plot_params [(''show_median'', PBool True)]) example_plot_df) =
        Inr [Str ''observed'', Str ''mean'']"
    by code_simp
  moreover have "map_sum id (\<lambda>r. map (\<lambda>x. cell_at x ''stat'') (frows (rendered_frame r)))
          (draw (plot_params []) example_plot_df) =
        Inr [Str ''observed'', Str ''mean'', Str ''median'']"
    by code_simp
  ultimately show ?thesis
    by (simp only: plot_def Let_def snd_conv default_alpha example_plot sum.case)
qed


theorem cumulative_effects_mean_classified_witness:
  "[(''time'', Num 0), (''pre_period_start'', Num 0), (''pre_period_end'', Num 0),
    (''post_period_start'', Num 1), (''post_period_end'', Num 1),
    (''value'', Num 1), (''scale'', Str ''cumulative_effects''), (''stat'', Str ''mean'')]
   \<in> set (frows example_lines_df)"
proof -
  have c: "''cumulative_effects_mean'' \<in> set (columns (with_time example_series))"
    by (simp add: with_time_def example_series_def set_column_list_def)
  from cumulative_effects_mean_classified[OF c example_lines] show ?thesis
    by (simp add: with_time_def example_series_def base_columns_def cell_at_def set_cell_def)
qed

theorem std_component_bounds_witness:
  "create_plot_component_df example_quantile (with_time example_series) ''std'' (PFloat 0.05) =
     Inr example_std_df \<and>
   band_stat (with_time example_series) ''mean''
     [Num 0, Str ''original'', Num 0, Num 0, Num 1, Num 1] = Num 9 \<and>
   band_stat (with_time example_series) ''std''
     [Num 0, Str ''original'', Num 0, Num 0, Num 1, Num 1] = Num 1 \<and>
   example_quantile (1 - 0.05 / 2) = 2 \<and>
   map (\<lambda>r. (cell_at r ''scale'', cell_at r ''lower'', cell_at r ''upper'', cell_at r ''band_method''))
       (frows example_std_df) =
     [(Str ''cumulative_effects'', NaN, NaN, Str ''std''),
      (Str ''original'', Num (9 - 2 * 1), Num (9 + 2 * 1), Str ''std'')] \<and>
   ''mean'' \<notin> set (fcolumns example_std_df) \<and> ''std'' \<notin> set (fcolumns example_std_df)"
proof -
  have m: "band_stat (with_time example_series) ''mean''
     [Num 0, Str ''original'', Num 0, Num 0, Num 1, Num 1] = Num 9"
    by code_simp
  have s: "band_stat (with_time example_series) ''std''
     [Num 0, Str ''original'', Num 0, Num 0, Num 1, Num 1] = Num 1"
    by code_simp
  have r: "map (\<lambda>r. (cell_at r ''scale'', cell_at r ''lower'', cell_at r ''upper'', cell_at r ''band_method''))
       (frows example_std_df) =
     [(Str ''cumulative_effects'', NaN, NaN, Str ''std''),
      (Str ''original'', Num (9 - 2 * 1), Num (9 + 2 * 1), Str ''std'')]"
    by (simp add: example_std_df_def cell_at_def)
  from std_component_bounds[OF example_std] m s r example_std show ?thesis
    by (simp add: example_quantile_def)
qed

theorem period_boundaries_carried_witness:
  "create_plot_df example_quantile example_series (PFloat 0.05) = Inr example_plot_df \<and>
   length (frows example_plot_df) = 7 \<and>
   list_all (\<lambda>r. cell_at r ''time'' = Num 0 \<and>
                  cell_at r ''pre_period_start'' = Num 0 \<and> cell_at r ''pre_period_end'' = Num 0 \<and>
                  cell_at r ''post_period_start'' = Num 1 \<and> cell_at r ''post_period_end'' = Num 1)
     (frows example_plot_df)"
proof -
  have r: "length (frows example_plot_df) = 7 \<and>
   list_all (\<lambda>r. cell_at r ''time'' = Num 0 \<and>
                  cell_at r ''pre_period_start'' = Num 0 \<and> cell_at r ''pre_period_end'' = Num 0 \<and>
                  cell_at r ''post_period_start'' = Num 1 \<and> cell_at r ''post_period_end'' = Num 1)
     (frows example_plot_df)"
    by (simp add: example_plot_df_def cell_at_def)
  from period_boundaries_carried[OF example_plot] r example_plot show ?thesis
    by simp
qed

end
